theory Spec2Isabelle
  imports Complex_Main "HOL-Library.Multiset" "HOL-Library.Sublist" "HOL-Library.Log_Nat"
begin

section \<open>JavaScript primitives the search controller relies on\<close>

text \<open>
  The controller is TypeScript. Optional request fields and optional document fields are
  \<open>'a option\<close> (\<open>None\<close> is \<open>undefined\<close>). Numbers that the controller prints into
  filter expressions are integers here: fractional values and their decimal rendering are
  not modelled.
\<close>

text \<open>Truthiness of an optional number and of an optional string, as \<open>if (x)\<close>, \<open>x && y\<close>,
  \<open>x ? a : b\<close> and \<open>x || y\<close> test it: \<open>undefined\<close>, \<open>0\<close> and the empty string are falsy.\<close>

definition truthy_num :: "('a::zero) option \<Rightarrow> bool" where
  "truthy_num v = (case v of None \<Rightarrow> False | Some n \<Rightarrow> n \<noteq> 0)"

definition truthy_str :: "string option \<Rightarrow> bool" where
  "truthy_str v = (case v of None \<Rightarrow> False | Some s \<Rightarrow> s \<noteq> [])"

text \<open>Decimal rendering of an integer, as a template literal \<open>`${n}`\<close> or \<open>String(n)\<close> does.\<close>

definition digit_char :: "nat \<Rightarrow> char" where
  "digit_char d = ''0123456789'' ! d"

fun show_nat :: "nat \<Rightarrow> string" where
  "show_nat n = (if n < 10 then [digit_char n] else show_nat (n div 10) @ [digit_char (n mod 10)])"

declare show_nat.simps [simp del]

definition show_int :: "int \<Rightarrow> string" where
  "show_int i = (if i < 0 then CHR ''-'' # show_nat (nat (- i)) else show_nat (nat i))"

text \<open>A value interpolated into a template literal: \<open>undefined\<close> prints as the word.\<close>

definition template_num :: "int option \<Rightarrow> string" where
  "template_num v = (case v of None \<Rightarrow> ''undefined'' | Some n \<Rightarrow> show_int n)"

text \<open>\<open>parseInt(s, 10)\<close>: leading white space is skipped, one sign is read, then the longest
  run of decimal digits; no digit at all gives \<open>NaN\<close> (here \<open>None\<close>). The result is kept
  as an integer: the rounding of an integer beyond \<open>2 ^ 53\<close> to a double is not modelled
  (the strings parsed are genre identifiers).\<close>

definition is_space :: "char \<Rightarrow> bool" where
  "is_space c = (c \<in> set [CHR '' '', CHR 0x09, CHR 0x0A, CHR 0x0B, CHR 0x0C, CHR 0x0D])"

definition is_digit :: "char \<Rightarrow> bool" where
  "is_digit c = (c \<in> set ''0123456789'')"

definition digit_val :: "char \<Rightarrow> nat" where
  "digit_val c = of_char c - 48"

definition digits_val :: "string \<Rightarrow> nat" where
  "digits_val ds = foldl (\<lambda>acc c. 10 * acc + digit_val c) 0 ds"

definition parseInt :: "string \<Rightarrow> int option" where
  "parseInt s =
     (let t = dropWhile is_space s;
          neg = (case t of [] \<Rightarrow> False | c # _ \<Rightarrow> c = CHR ''-'');
          u = (case t of [] \<Rightarrow> [] | c # r \<Rightarrow> if c = CHR ''-'' \<or> c = CHR ''+'' then r else t);
          ds = takeWhile is_digit u
      in if ds = [] then None
         else Some (if neg then - int (digits_val ds) else int (digits_val ds)))"

text \<open>\<open>s.split(',')\<close> and \<open>xs.join(sep)\<close>.\<close>

fun split_on :: "char \<Rightarrow> string \<Rightarrow> string list" where
  "split_on c [] = [[]]"
| "split_on c (x # xs) =
     (if x = c then [] # split_on c xs
      else (case split_on c xs of [] \<Rightarrow> [[x]] | w # ws \<Rightarrow> (x # w) # ws))"

fun join :: "string \<Rightarrow> string list \<Rightarrow> string" where
  "join sep [] = []"
| "join sep [x] = x"
| "join sep (x # y # ys) = x @ sep @ join sep (y # ys)"

text \<open>An array of parsed numbers joined into a string: \<open>NaN\<close> prints as the word.\<close>

definition show_parsed :: "int option \<Rightarrow> string" where
  "show_parsed v = (case v of None \<Rightarrow> ''NaN'' | Some n \<Rightarrow> show_int n)"

section \<open>Query specifications: filter and sort expressions\<close>

text \<open>The parameters sent to the engine for one collection. \<open>sp_page\<close> and \<open>sp_sort_by\<close> and
  \<open>sp_filter_by\<close> are absent from some queries.\<close>

record search_params =
  sp_collection :: string
  sp_q :: string
  sp_query_by :: string
  sp_page :: "nat option"
  sp_per_page :: nat
  sp_filter_by :: "string option"
  sp_sort_by :: "string option"

text \<open>The three term shapes of the engine's filter grammar that the range dimensions use.\<close>

definition closed_range_term :: "string \<Rightarrow> int \<Rightarrow> int \<Rightarrow> string" where
  "closed_range_term field a b = field @ '': ['' @ show_int a @ ''..'' @ show_int b @ '']''"

definition greater_than_term :: "string \<Rightarrow> int \<Rightarrow> string" where
  "greater_than_term field a = field @ '': >'' @ show_int a"

definition less_than_term :: "string \<Rightarrow> int \<Rightarrow> string" where
  "less_than_term field b = field @ '': <'' @ show_int b"

text \<open>The block the handlers repeat for every range dimension
  (\<open>if (min && max) ... else if (min) ... else if (max) ...\<close>), returning what it pushes
  on \<open>filters\<close>.\<close>

definition range_filter :: "string \<Rightarrow> int option \<Rightarrow> int option \<Rightarrow> string list" where
  "range_filter field mn mx =
     (if truthy_num mn \<and> truthy_num mx
        then [field @ '': ['' @ template_num mn @ ''..'' @ template_num mx @ '']'']
      else if truthy_num mn then [field @ '': >'' @ template_num mn]
      else if truthy_num mx then [field @ '': <'' @ template_num mx]
      else [])"

text \<open>The genre block: \<open>genre_ids\<close> is a comma-separated string of ids.\<close>

definition genre_filter :: "string option \<Rightarrow> string list" where
  "genre_filter genre_ids =
     (case genre_ids of
        None \<Rightarrow> []
      | Some s \<Rightarrow>
          if s \<noteq> [] \<and> length s > 0
          then (let genres = map parseInt (split_on CHR '','' s)
                in if length genres > 0
                   then [''genre_ids: ['' @ join '','' (map show_parsed genres) @ '']'']
                   else [])
          else [])"

text \<open>\<open>if (filters.length > 0) searchParameters.filter_by = filters.join(' && ')\<close>.\<close>

definition join_filters :: "string list \<Rightarrow> string option" where
  "join_filters filters = (if length filters > 0 then Some (join '' && '' filters) else None)"

text \<open>Modelled from the spec: the request types \<open>MovieSearchQuery\<close>, \<open>TvSeriesSearchQuery\<close>,
  \<open>PersonSearchQuery\<close>, \<open>UserSearchQuery\<close> and \<open>PlaylistSearchQuery\<close> are declared in the
  package \<open>@recomendapp/types\<close>, which is not among the sources. The records below have
  the fields that the handlers read from \<open>request.query\<close>; following the data model of the
  specification (a page and a page size of at least 1, numeric ranges, id lists), the page
  and the page size are naturals, the bounds of a range are optional numbers, and the id
  lists are optional strings, which the handlers split at the commas.\<close>

record movie_query =
  mq_query :: string
  mq_page :: nat
  mq_per_page :: nat
  mq_sort_by :: string
  mq_genre_ids :: "string option"
  mq_runtime_min :: "int option"
  mq_runtime_max :: "int option"
  mq_release_date_min :: "int option"
  mq_release_date_max :: "int option"

definition movie_filters :: "movie_query \<Rightarrow> string list" where
  "movie_filters rq =
     genre_filter (mq_genre_ids rq)
     @ range_filter ''runtime'' (mq_runtime_min rq) (mq_runtime_max rq)
     @ range_filter ''release_date'' (mq_release_date_min rq) (mq_release_date_max rq)"

definition searchMovies_params :: "movie_query \<Rightarrow> search_params" where
  "searchMovies_params rq =
     \<lparr> sp_collection = ''movies'',
       sp_q = mq_query rq,
       sp_query_by = ''original_title,titles'',
       sp_page = Some (mq_page rq),
       sp_per_page = mq_per_page rq,
       sp_filter_by = join_filters (movie_filters rq),
       sp_sort_by = Some (''_text_match(buckets: 10):desc,'' @ (mq_sort_by rq @ '':desc'')) \<rparr>"

record tv_query =
  tq_query :: string
  tq_page :: nat
  tq_per_page :: nat
  tq_sort_by :: string
  tq_genre_ids :: "string option"
  tq_number_of_seasons_min :: "int option"
  tq_number_of_seasons_max :: "int option"
  tq_number_of_episodes_min :: "int option"
  tq_number_of_episodes_max :: "int option"
  tq_vote_average_min :: "int option"
  tq_vote_average_max :: "int option"
  tq_first_air_date_min :: "int option"
  tq_first_air_date_max :: "int option"

definition tv_filters :: "tv_query \<Rightarrow> string list" where
  "tv_filters rq =
     genre_filter (tq_genre_ids rq)
     @ range_filter ''number_of_seasons'' (tq_number_of_seasons_min rq) (tq_number_of_seasons_max rq)
     @ range_filter ''number_of_episodes'' (tq_number_of_episodes_min rq) (tq_number_of_episodes_max rq)
     @ range_filter ''vote_average'' (tq_vote_average_min rq) (tq_vote_average_max rq)
     @ range_filter ''first_air_date'' (tq_first_air_date_min rq) (tq_first_air_date_max rq)"

definition searchTVSeries_params :: "tv_query \<Rightarrow> search_params" where
  "searchTVSeries_params rq =
     \<lparr> sp_collection = ''tv_series'',
       sp_q = tq_query rq,
       sp_query_by = ''original_name,names'',
       sp_page = Some (tq_page rq),
       sp_per_page = tq_per_page rq,
       sp_filter_by = join_filters (tv_filters rq),
       sp_sort_by = Some (''_text_match(buckets: 10):desc,'' @ (tq_sort_by rq @ '':desc'')) \<rparr>"

record person_query =
  pq_query :: string
  pq_page :: nat
  pq_per_page :: nat
  pq_sort_by :: string

definition searchPersons_params :: "person_query \<Rightarrow> search_params" where
  "searchPersons_params rq =
     \<lparr> sp_collection = ''persons'',
       sp_q = pq_query rq,
       sp_query_by = ''name,also_known_as'',
       sp_page = Some (pq_page rq),
       sp_per_page = pq_per_page rq,
       sp_filter_by = None,
       sp_sort_by = Some (''_text_match(buckets: 10):desc,'' @ (pq_sort_by rq @ '':desc'')) \<rparr>"

text \<open>The users query has no sort field of the caller; \<open>exclude_ids\<close> is a comma-separated
  string of ids, each excluded by its own not-equal term.\<close>

record user_query =
  uq_query :: string
  uq_page :: nat
  uq_per_page :: nat
  uq_exclude_ids :: "string option"

definition exclusion_filter :: "string option \<Rightarrow> string option" where
  "exclusion_filter exclude_ids =
     (case exclude_ids of
        None \<Rightarrow> None
      | Some s \<Rightarrow>
          if s \<noteq> [] \<and> length s > 0
          then Some (join '' && '' (map (\<lambda>i. ''id:!='' @ i) (split_on CHR '','' s)))
          else None)"

definition searchUsers_params :: "user_query \<Rightarrow> search_params" where
  "searchUsers_params rq =
     \<lparr> sp_collection = ''users'',
       sp_q = uq_query rq,
       sp_query_by = ''username,full_name'',
       sp_page = Some (uq_page rq),
       sp_per_page = uq_per_page rq,
       sp_filter_by = exclusion_filter (uq_exclude_ids rq),
       sp_sort_by = Some ''_text_match(buckets: 10):desc, followers_count:desc'' \<rparr>"

text \<open>\<open>getPlaylistPermissionFilter\<close>: the argument is \<open>request.user?.sub\<close>.\<close>

definition getPlaylistPermissionFilter :: "string option \<Rightarrow> string" where
  "getPlaylistPermissionFilter userId =
     (if truthy_str userId
      then (case userId of
              None \<Rightarrow> ''is_private:false''
            | Some u \<Rightarrow> ''is_private:false || owner_id:='' @ u @ '' || guest_ids:='' @ u)
      else ''is_private:false'')"

record playlist_query =
  lq_query :: string
  lq_page :: nat
  lq_per_page :: nat
  lq_sort_by :: string

definition searchPlaylists_params :: "string option \<Rightarrow> playlist_query \<Rightarrow> search_params" where
  "searchPlaylists_params userId rq =
     \<lparr> sp_collection = ''playlists'',
       sp_q = lq_query rq,
       sp_query_by = ''title,description'',
       sp_page = Some (lq_page rq),
       sp_per_page = lq_per_page rq,
       sp_filter_by = Some (getPlaylistPermissionFilter userId),
       sp_sort_by = Some (lq_sort_by rq @ '':desc'') \<rparr>"

text \<open>The batch of the best-results endpoint (\<open>searchBestResult\<close>) and the batch of the
  all-types endpoint (\<open>searchAll\<close>, the older variant of the controller, with a fixed
  \<open>resultsPerType = 5\<close> and no sort expression).\<close>

definition multi_spec ::
  "string \<Rightarrow> string \<Rightarrow> nat \<Rightarrow> string \<Rightarrow> string option \<Rightarrow> string option \<Rightarrow> search_params" where
  "multi_spec coll q n qby flt srt =
     \<lparr> sp_collection = coll, sp_q = q, sp_query_by = qby, sp_page = None,
       sp_per_page = n, sp_filter_by = flt, sp_sort_by = srt \<rparr>"

definition searchBestResult_searches :: "string option \<Rightarrow> string \<Rightarrow> nat \<Rightarrow> search_params list" where
  "searchBestResult_searches userId q results_per_type =
     [ multi_spec ''movies'' q results_per_type ''original_title,titles'' None
         (Some ''_text_match(buckets: 10):desc,popularity:desc''),
       multi_spec ''tv_series'' q results_per_type ''original_name,names'' None
         (Some ''_text_match(buckets: 10):desc,popularity:desc''),
       multi_spec ''persons'' q results_per_type ''name,also_known_as'' None
         (Some ''_text_match(buckets: 10):desc,popularity:desc''),
       multi_spec ''users'' q results_per_type ''username,full_name'' None
         (Some ''_text_match(buckets: 10):desc,followers_count:desc''),
       multi_spec ''playlists'' q results_per_type ''title,description''
         (Some (getPlaylistPermissionFilter userId))
         (Some ''_text_match(buckets: 10):desc,likes_count:desc'') ]"

definition resultsPerType :: nat where
  "resultsPerType = 5"

definition searchAll_searches :: "string option \<Rightarrow> string \<Rightarrow> search_params list" where
  "searchAll_searches userId q =
     [ multi_spec ''movies'' q resultsPerType ''original_title,titles'' None None,
       multi_spec ''tv_series'' q resultsPerType ''original_name,names'' None None,
       multi_spec ''persons'' q resultsPerType ''name,also_known_as'' None None,
       multi_spec ''users'' q resultsPerType ''username,full_name'' None None,
       multi_spec ''playlists'' q resultsPerType ''title,description''
         (Some (getPlaylistPermissionFilter userId)) None ]"

text \<open>A sort expression that places relevance first, in ten buckets.\<close>

definition relevance_first :: "string \<Rightarrow> bool" where
  "relevance_first s = prefix ''_text_match(buckets: 10):desc,'' s"

section \<open>The engine's filter grammar on playlist documents\<close>








section \<open>Engine results and the best-result selector\<close>

text \<open>
  JavaScript numbers are IEEE 754 double-precision numbers. A finite double is modelled as
  the rational it denotes, and every arithmetic operation of the program as the exact
  operation followed by \<open>fl\<close>, the rounding to the nearest double, ties to the even
  significand: a double is an integer multiple of \<open>2 ^ (e - 52)\<close>, where \<open>2 ^ e\<close> is the
  power of two at or below its magnitude (of \<open>2 ^ (- 1074)\<close> in the subnormal range).
  Comparisons and \<open>Math.max\<close> are exact on doubles. Overflow to \<open>Infinity\<close>, \<open>NaN\<close>
  and the sign of zero are not modelled: the numbers of a hit are finite, and the selector
  divides by a maximum that is at least 1.
\<close>

definition floor_log2 :: "rat \<Rightarrow> int" where
  \<comment> \<open>for \<open>0 < x\<close>: the \<open>e\<close> with \<open>2 ^ e \<le> x < 2 ^ (e + 1)\<close>\<close>
  "floor_log2 x =
     (if 1 \<le> x then int (floorlog 2 (nat \<lfloor>x\<rfloor>)) - 1
      else - int (floorlog 2 (nat (\<lceil>1 / x\<rceil> - 1))))"

definition pow2 :: "int \<Rightarrow> rat" where
  "pow2 e = (if 0 \<le> e then 2 ^ nat e else 1 / 2 ^ nat (- e))"

definition round_half_even :: "rat \<Rightarrow> int" where
  "round_half_even q =
     (let n = \<lfloor>q\<rfloor>; r = q - of_int n
      in if r < 1 / 2 then n else if 1 / 2 < r then n + 1 else if even n then n else n + 1)"

definition fl :: "rat \<Rightarrow> rat" where
  "fl x =
     (if x = 0 then 0
      else (let u = pow2 (max (floor_log2 \<bar>x\<bar> - 52) (- 1074))
            in of_int (round_half_even (x / u)) * u))"

text \<open>The operations \<open>a / b\<close>, \<open>a * b\<close> and \<open>a + b\<close> on doubles, and the doubles that the
  literals \<open>0.9\<close> and \<open>0.1\<close> denote.\<close>

definition double_div :: "rat \<Rightarrow> rat \<Rightarrow> rat" where
  "double_div a b = fl (a / b)"

definition double_mul :: "rat \<Rightarrow> rat \<Rightarrow> rat" where
  "double_mul a b = fl (a * b)"

definition double_add :: "rat \<Rightarrow> rat \<Rightarrow> rat" where
  "double_add a b = fl (a + b)"

definition literal_0_9 :: rat where
  "literal_0_9 = fl (9 / 10)"

definition literal_0_1 :: rat where
  "literal_0_1 = fl (1 / 10)"

text \<open>
  \<open>TypesenseHit\<close> and \<open>TypesenseSearchResult\<close> (\<open>types/Typesense.ts\<close>), at the document
  type the multi-collection handlers use:
  \<open>{ id: string, popularity?: number, followers_count?: number, likes_count?: number }\<close>.
\<close>

record document =
  doc_id :: string
  doc_popularity :: "rat option"
  doc_followers_count :: "rat option"
  doc_likes_count :: "rat option"

record hit =
  hit_document :: document
  hit_text_match :: "rat option"

record search_result =
  sr_hits :: "hit list option"
  sr_found :: nat

text \<open>\<open>a || b\<close> on optional numbers, and \<open>a || 0\<close> closing such a chain.\<close>

definition or_else :: "rat option \<Rightarrow> rat option \<Rightarrow> rat option" where
  "or_else a b = (if truthy_num a then a else b)"

definition or_zero :: "rat option \<Rightarrow> rat" where
  "or_zero a = (case a of None \<Rightarrow> 0 | Some x \<Rightarrow> if x \<noteq> 0 then x else 0)"

text \<open>\<open>hit.text_match || 0\<close> and
  \<open>doc.popularity || doc.followers_count || doc.likes_count || 0\<close>.\<close>

definition textScore :: "hit \<Rightarrow> rat" where
  "textScore h = or_zero (hit_text_match h)"

definition popularityMetric :: "document \<Rightarrow> rat" where
  "popularityMetric doc =
     or_zero (or_else (or_else (doc_popularity doc) (doc_followers_count doc))
                (doc_likes_count doc))"

text \<open>\<open>result.hits?.[0]\<close> and \<open>result.hits?.map(h => h.document.id) || []\<close>.\<close>

definition first_hit :: "search_result \<Rightarrow> hit option" where
  "first_hit r = (case sr_hits r of None \<Rightarrow> None | Some [] \<Rightarrow> None | Some (h # _) \<Rightarrow> Some h)"

definition hit_ids :: "search_result \<Rightarrow> string list" where
  "hit_ids r = (case sr_hits r of None \<Rightarrow> [] | Some hs \<Rightarrow> map (\<lambda>h. doc_id (hit_document h)) hs)"

definition potentialBest ::
  "search_result \<Rightarrow> search_result \<Rightarrow> search_result \<Rightarrow> search_result \<Rightarrow> search_result
     \<Rightarrow> (string \<times> hit option) list" where
  "potentialBest moviesResult tvSeriesResult personsResult usersResult playlistsResult =
     [ (''movie'', first_hit moviesResult),
       (''tv_series'', first_hit tvSeriesResult),
       (''person'', first_hit personsResult),
       (''user'', first_hit usersResult),
       (''playlist'', first_hit playlistsResult) ]"

text \<open>\<open>potentialBest.map(c => c.hit).filter(Boolean)\<close>, and \<open>Math.max(...xs, 1)\<close>.\<close>

definition allHits :: "(string \<times> hit option) list \<Rightarrow> hit list" where
  "allHits pb = List.map_filter snd pb"

definition max_with_one :: "rat list \<Rightarrow> rat" where
  "max_with_one xs = foldr max xs 1"

definition maxTextScore :: "(string \<times> hit option) list \<Rightarrow> rat" where
  "maxTextScore pb = max_with_one (map textScore (allHits pb))"

definition maxPopularity :: "(string \<times> hit option) list \<Rightarrow> rat" where
  "maxPopularity pb = max_with_one (map (\<lambda>h. popularityMetric (hit_document h)) (allHits pb))"

text \<open>\<open>normalizedText = textScore / maxTextScore\<close>, \<open>normalizedPop = popularityMetric /
  maxPopularity\<close> and \<open>hybridScore = normalizedText * 0.9 + normalizedPop * 0.1\<close>, in
  doubles.\<close>

definition hybridScore :: "rat \<Rightarrow> rat \<Rightarrow> hit \<Rightarrow> rat" where
  "hybridScore maxText maxPop h =
     double_add
       (double_mul (double_div (textScore h) maxText) literal_0_9)
       (double_mul (double_div (popularityMetric (hit_document h)) maxPop) literal_0_1)"

record best_meta =
  bm_type :: string
  bm_id :: string
  bm_score :: rat

definition candidate_meta :: "rat \<Rightarrow> rat \<Rightarrow> string \<Rightarrow> hit \<Rightarrow> best_meta" where
  "candidate_meta maxText maxPop ty h =
     \<lparr> bm_type = ty, bm_id = doc_id (hit_document h), bm_score = hybridScore maxText maxPop h \<rparr>"

text \<open>One turn of the loop \<open>for (const candidate of potentialBest)\<close>: the candidate replaces
  the best one so far when there is none, or when its score is strictly greater.\<close>

definition best_step ::
  "rat \<Rightarrow> rat \<Rightarrow> best_meta option \<Rightarrow> string \<times> hit option \<Rightarrow> best_meta option" where
  "best_step maxText maxPop best candidate =
     (case snd candidate of
        None \<Rightarrow> best
      | Some h \<Rightarrow>
          (case best of
             None \<Rightarrow> Some (candidate_meta maxText maxPop (fst candidate) h)
           | Some b \<Rightarrow>
               if hybridScore maxText maxPop h > bm_score b
               then Some (candidate_meta maxText maxPop (fst candidate) h)
               else best))"

definition select_best :: "(string \<times> hit option) list \<Rightarrow> best_meta option" where
  "select_best pb = foldl (best_step (maxTextScore pb) (maxPopularity pb)) None pb"

text \<open>The candidates that have a hit, in declaration order, each with its hybrid score.\<close>

definition scored_with :: "rat \<Rightarrow> rat \<Rightarrow> (string \<times> hit option) list \<Rightarrow> best_meta list" where
  "scored_with maxText maxPop pb =
     List.map_filter (\<lambda>c. map_option (candidate_meta maxText maxPop (fst c)) (snd c)) pb"

definition scored :: "(string \<times> hit option) list \<Rightarrow> best_meta list" where
  "scored pb = scored_with (maxTextScore pb) (maxPopularity pb) pb"








definition no_hit :: search_result where
  "no_hit = \<lparr> sr_hits = Some [], sr_found = 0 \<rparr>"

section \<open>The store and hydration\<close>

text \<open>
  Modelled from the spec: the row types of the store (\<open>Database\<close>, of the package
  \<open>@recomendapp/types\<close>) are not among the sources; a store record has at least an \<open>id\<close>.
  The id is a number in the media and playlist tables and a string in the user table; the
  rest of the record is opaque. \<open>String(item.id)\<close> renders it, and
  \<open>parseInt(id, 10)\<close> turns an engine id into the number sent to the store (\<open>NaN\<close> when
  the id has no leading digits).
\<close>

datatype jsid = NumId int | StrId string | NaNId

definition String_of :: "jsid \<Rightarrow> string" where
  "String_of i = (case i of NumId n \<Rightarrow> show_int n | StrId s \<Rightarrow> s | NaNId \<Rightarrow> ''NaN'')"

definition parse_id :: "string \<Rightarrow> jsid" where
  "parse_id s = (case parseInt s of None \<Rightarrow> NaNId | Some n \<Rightarrow> NumId n)"

record item =
  item_id :: jsid
  item_body :: string

text \<open>
  What a handler does to the outside world, in order: the queries it sends to the engine,
  the selections \<open>from(table).select(columns).in('id', ids)\<close> it sends to the store, and
  the errors it logs (the informational log lines, which cannot fail and reach no caller,
  are left out). The engine and the store are parameters of the model: the engine
  answers a query with a result or throws; the store answers with rows, in any order, or
  with the message of an error.
\<close>

datatype js_error = Error string | TypeError string

datatype event =
    EngineSearch search_params
  | EngineMultiSearch "search_params list"
  | StoreSelect string string "jsid list"
  | LogError js_error string

record env =
  engine_search :: "search_params \<Rightarrow> js_error + search_result"
  engine_multi_search :: "search_params list \<Rightarrow> js_error + search_result list"
  store_select :: "string \<Rightarrow> string \<Rightarrow> jsid list \<Rightarrow> string + item list"

text \<open>\<open>new Map(entries)\<close> followed by \<open>get\<close>: a later entry of a key overwrites an
  earlier one.\<close>

definition js_Map :: "('k \<times> 'v) list \<Rightarrow> 'k \<Rightarrow> 'v option" where
  "js_Map entries = map_of (rev entries)"

text \<open>\<open>const dataMap = new Map(data.map(item => [key(item), item]));
  return ids.map(id => dataMap.get(id)).filter(Boolean)\<close>.\<close>

definition reorder :: "(item \<Rightarrow> 'k) \<Rightarrow> item list \<Rightarrow> 'k list \<Rightarrow> item list" where
  "reorder key data ids = List.map_filter (js_Map (map (\<lambda>it. (key it, it)) data)) ids"

definition hydrateByIds :: "env \<Rightarrow> string \<Rightarrow> string list \<Rightarrow> event list \<times> (js_error + item list)" where
  "hydrateByIds e tableName ids =
     (if length ids = 0 then ([], Inr [])
      else
        (case store_select e tableName ''*'' (map StrId ids) of
           Inl message \<Rightarrow>
             ([StoreSelect tableName ''*'' (map StrId ids)],
              Inl (Error (''Failed to hydrate from '' @ tableName @ '': '' @ message)))
         | Inr data \<Rightarrow>
             ([StoreSelect tableName ''*'' (map StrId ids)],
              Inr (reorder (\<lambda>it. String_of (item_id it)) data ids))))"

definition hydratePlaylists :: "env \<Rightarrow> jsid list \<Rightarrow> event list \<times> (js_error + item list)" where
  "hydratePlaylists e ids =
     (if length ids = 0 then ([], Inr [])
      else
        (case store_select e ''playlists'' ''*, user(*)'' ids of
           Inl message \<Rightarrow>
             ([StoreSelect ''playlists'' ''*, user(*)'' ids],
              Inl (Error (''Failed to hydrate playlists: '' @ message)))
         | Inr data \<Rightarrow>
             ([StoreSelect ''playlists'' ''*, user(*)'' ids], Inr (reorder item_id data ids))))"

section \<open>Pagination and replies\<close>

text \<open>\<open>Math.ceil(found / per_page)\<close> on non-negative integers; a division by 0 gives
  \<open>Infinity\<close>, or \<open>NaN\<close> for \<open>0 / 0\<close>.\<close>

datatype js_number = Finite int | Infinity | NaN

definition Math_ceil_div :: "nat \<Rightarrow> nat \<Rightarrow> js_number" where
  "Math_ceil_div found n =
     (if n = 0 then (if found = 0 then NaN else Infinity)
      else Finite \<lceil>rat_of_nat found / rat_of_nat n\<rceil>)"

record pagination =
  total_results :: nat
  total_pages :: js_number
  current_page :: nat
  per_page :: nat

record page_result =
  pr_data :: "item list"
  pr_pagination :: pagination

datatype 'a reply = Ok200 'a | Error500 string

definition generic_error :: string where
  "generic_error = ''An internal server error occurred''"

section \<open>The single-collection handlers\<close>

text \<open>
  The five handlers share their second half, written out in each of them: the ids of the
  hits, the return on no id, the selection from the store, the reordering, the
  pagination block. \<open>hydrate_page\<close> is that half; the handlers differ in the table, the
  columns, the form of the ids sent to the store (\<open>parseInt\<close> or the string itself) and the
  key of the map (\<open>String(x.id)\<close> or \<open>x.id\<close>). The older variant of the controller has the
  same five handlers, but for the columns of the playlists selection (\<open>*\<close> alone).
\<close>

definition hydrate_page ::
  "env \<Rightarrow> search_result \<Rightarrow> string \<Rightarrow> string \<Rightarrow> (string \<Rightarrow> jsid) \<Rightarrow> (item \<Rightarrow> jsid)
     \<Rightarrow> nat \<Rightarrow> nat \<Rightarrow> event list \<times> (js_error + page_result)" where
  "hydrate_page e searchResult tableName columns store_id map_key page n =
     (let ids = hit_ids searchResult in
      if length ids = 0
      then ([], Inr \<lparr> pr_data = [],
                      pr_pagination = \<lparr> total_results = 0, total_pages = Finite 0,
                                        current_page = page, per_page = n \<rparr> \<rparr>)
      else
        (case store_select e tableName columns (map store_id ids) of
           Inl message \<Rightarrow> ([StoreSelect tableName columns (map store_id ids)], Inl (Error message))
         | Inr data \<Rightarrow>
             ([StoreSelect tableName columns (map store_id ids)],
              Inr \<lparr> pr_data = reorder map_key data (map StrId ids),
                    pr_pagination =
                      \<lparr> total_results = sr_found searchResult,
                        total_pages = Math_ceil_div (sr_found searchResult) n,
                        current_page = page, per_page = n \<rparr> \<rparr>)))"

text \<open>The \<open>try\<close> block of a handler around the engine query and the second half, and its
  \<open>catch\<close>: the error is logged and the reply is the generic one.\<close>

definition run_single ::
  "env \<Rightarrow> search_params \<Rightarrow> (search_result \<Rightarrow> event list \<times> (js_error + page_result)) \<Rightarrow> string
     \<Rightarrow> event list \<times> page_result reply" where
  "run_single e params rest failed =
     (case engine_search e params of
        Inl err \<Rightarrow> ([EngineSearch params, LogError err failed], Error500 generic_error)
      | Inr searchResult \<Rightarrow>
          (case rest searchResult of
             (evs, Inl err) \<Rightarrow>
               (EngineSearch params # evs @ [LogError err failed], Error500 generic_error)
           | (evs, Inr r) \<Rightarrow> (EngineSearch params # evs, Ok200 r)))"

definition string_key :: "item \<Rightarrow> jsid" where
  "string_key it = StrId (String_of (item_id it))"

definition searchMovies :: "env \<Rightarrow> movie_query \<Rightarrow> event list \<times> page_result reply" where
  "searchMovies e rq =
     run_single e (searchMovies_params rq)
       (\<lambda>r. hydrate_page e r ''media_movie'' ''*'' parse_id string_key (mq_page rq) (mq_per_page rq))
       ''Movie search failed''"

definition searchTVSeries :: "env \<Rightarrow> tv_query \<Rightarrow> event list \<times> page_result reply" where
  "searchTVSeries e rq =
     run_single e (searchTVSeries_params rq)
       (\<lambda>r. hydrate_page e r ''media_tv_series'' ''*'' parse_id string_key
              (tq_page rq) (tq_per_page rq))
       ''TV series search failed''"

definition searchPersons :: "env \<Rightarrow> person_query \<Rightarrow> event list \<times> page_result reply" where
  "searchPersons e rq =
     run_single e (searchPersons_params rq)
       (\<lambda>r. hydrate_page e r ''media_person'' ''*'' parse_id string_key
              (pq_page rq) (pq_per_page rq))
       ''Person search failed''"

definition searchUsers :: "env \<Rightarrow> user_query \<Rightarrow> event list \<times> page_result reply" where
  "searchUsers e rq =
     run_single e (searchUsers_params rq)
       (\<lambda>r. hydrate_page e r ''user'' ''*'' StrId item_id (uq_page rq) (uq_per_page rq))
       ''User search failed''"

definition searchPlaylists ::
  "env \<Rightarrow> string option \<Rightarrow> playlist_query \<Rightarrow> event list \<times> page_result reply" where
  "searchPlaylists e userId rq =
     run_single e (searchPlaylists_params userId rq)
       (\<lambda>r. hydrate_page e r ''playlists'' ''*, user(*)'' parse_id string_key
              (lq_page rq) (lq_per_page rq))
       ''Playlist search failed''"

section \<open>The multi-collection handlers\<close>

text \<open>\<open>Promise.all\<close> over hydrations: every hydration is started, so all their store
  selections are sent, and the whole fails when one of them fails (here with the error of
  the first failing one in the order of the array).\<close>

fun all_or_error :: "('e + 'a) list \<Rightarrow> 'e + 'a list" where
  "all_or_error [] = Inr []"
| "all_or_error (Inl err # rs) = Inl err"
| "all_or_error (Inr x # rs) = (case all_or_error rs of Inl err \<Rightarrow> Inl err | Inr xs \<Rightarrow> Inr (x # xs))"

definition promise_all :: "(event list \<times> ('e + 'a)) list \<Rightarrow> event list \<times> ('e + 'a list)" where
  "promise_all ps = (concat (map fst ps), all_or_error (map snd ps))"

text \<open>The \<open>catch\<close> of both handlers.\<close>

definition all_search_failed :: "event list \<Rightarrow> js_error \<Rightarrow> event list \<times> 'a reply" where
  "all_search_failed evs err = (evs @ [LogError err ''All search failed''], Error500 generic_error)"

text \<open>
  Loose equality \<open>x.id == id\<close> of a store id with an engine id, which is a string. A
  string id is compared as a string; a numeric id is compared with the number the string
  denotes. Only the empty string (0) and plain decimal integers, with an optional sign
  and surrounding white space, are read as numbers here: the engine's ids of the numeric
  tables are such strings.
\<close>

definition trim :: "string \<Rightarrow> string" where
  "trim s = rev (dropWhile is_space (rev (dropWhile is_space s)))"

definition ToNumber :: "string \<Rightarrow> int option" where
  "ToNumber s =
     (let t = trim s;
          neg = (case t of [] \<Rightarrow> False | c # _ \<Rightarrow> c = CHR ''-'');
          u = (case t of [] \<Rightarrow> [] | c # r \<Rightarrow> if c = CHR ''-'' \<or> c = CHR ''+'' then r else t)
      in if t = [] then Some 0
         else if u \<noteq> [] \<and> list_all is_digit u
         then Some (if neg then - int (digits_val u) else int (digits_val u))
         else None)"

definition loose_eq :: "jsid \<Rightarrow> string \<Rightarrow> bool" where
  "loose_eq x s =
     (case x of
        StrId t \<Rightarrow> t = s
      | NumId n \<Rightarrow> ToNumber s = Some n
      | NaNId \<Rightarrow> False)"

record best_result =
  br_type :: string
  br_data :: "item option"

record multi_result =
  mr_bestResult :: "best_result option"
  mr_movies :: page_result
  mr_tv_series :: page_result
  mr_persons :: page_result
  mr_users :: page_result
  mr_playlists :: page_result

text \<open>The entry of one type in a multi-collection reply.\<close>

definition type_result :: "item list \<Rightarrow> search_result \<Rightarrow> nat \<Rightarrow> page_result" where
  "type_result hydrated r n =
     \<lparr> pr_data = hydrated,
       pr_pagination = \<lparr> total_results = sr_found r, total_pages = Math_ceil_div (sr_found r) n,
                         current_page = 1, per_page = n \<rparr> \<rparr>"

text \<open>The \<open>switch\<close> of \<open>searchBestResult\<close> that looks the winner up in the hydrated list of
  its type.\<close>

definition best_data ::
  "best_meta \<Rightarrow> item list \<Rightarrow> item list \<Rightarrow> item list \<Rightarrow> item list \<Rightarrow> item list \<Rightarrow> item option" where
  "best_data b hydratedMovies hydratedTvSeries hydratedPersons hydratedUsers hydratedPlaylists =
     (if bm_type b = ''movie'' then find (\<lambda>x. loose_eq (item_id x) (bm_id b)) hydratedMovies
      else if bm_type b = ''tv_series''
        then find (\<lambda>x. loose_eq (item_id x) (bm_id b)) hydratedTvSeries
      else if bm_type b = ''person'' then find (\<lambda>x. loose_eq (item_id x) (bm_id b)) hydratedPersons
      else if bm_type b = ''user'' then find (\<lambda>x. loose_eq (item_id x) (bm_id b)) hydratedUsers
      else if bm_type b = ''playlist''
        then find (\<lambda>x. String_of (item_id x) = bm_id b) hydratedPlaylists
      else None)"

definition best_hydrations :: "env \<Rightarrow> search_result list \<Rightarrow> (event list \<times> (js_error + item list)) list" where
  "best_hydrations e results =
     [ hydrateByIds e ''media_movie'' (hit_ids (results ! 0)),
       hydrateByIds e ''media_tv_series'' (hit_ids (results ! 1)),
       hydrateByIds e ''media_person'' (hit_ids (results ! 2)),
       hydrateByIds e ''user'' (hit_ids (results ! 3)),
       hydratePlaylists e (map parse_id (hit_ids (results ! 4))) ]"

definition searchBestResult ::
  "env \<Rightarrow> string option \<Rightarrow> string \<Rightarrow> nat \<Rightarrow> event list \<times> multi_result reply" where
  "searchBestResult e userId q results_per_type =
     (let searches = searchBestResult_searches userId q results_per_type in
      case engine_multi_search e searches of
        Inl err \<Rightarrow> all_search_failed [EngineMultiSearch searches] err
      | Inr results \<Rightarrow>
          if length results < 5
          then all_search_failed [EngineMultiSearch searches]
                 (TypeError ''Cannot read properties of undefined'')
          else
            (let bestResultMeta =
                   select_best (potentialBest (results ! 0) (results ! 1) (results ! 2)
                                  (results ! 3) (results ! 4))
             in case promise_all (best_hydrations e results) of
                  (evs, Inl err) \<Rightarrow> all_search_failed (EngineMultiSearch searches # evs) err
                | (evs, Inr hs) \<Rightarrow>
                    (EngineMultiSearch searches # evs,
                     Ok200
                       \<lparr> mr_bestResult =
                           map_option
                             (\<lambda>b. \<lparr> br_type = bm_type b,
                                    br_data = best_data b (hs ! 0) (hs ! 1) (hs ! 2) (hs ! 3)
                                                (hs ! 4) \<rparr>)
                             bestResultMeta,
                         mr_movies = type_result (hs ! 0) (results ! 0) results_per_type,
                         mr_tv_series = type_result (hs ! 1) (results ! 1) results_per_type,
                         mr_persons = type_result (hs ! 2) (results ! 2) results_per_type,
                         mr_users = type_result (hs ! 3) (results ! 3) results_per_type,
                         mr_playlists = type_result (hs ! 4) (results ! 4) results_per_type \<rparr>)))"

text \<open>
  The all-types endpoint \<open>searchAll\<close> of the older variant of the controller. It hydrates
  the playlists with \<open>hydrateByIds\<close>, and it adds a sixth hydration to the batch, for the
  winner alone.
\<close>

definition getTableNameForType :: "string \<Rightarrow> string" where
  "getTableNameForType ty =
     (if ty = ''movie'' then ''media_movie''
      else if ty = ''tv_series'' then ''media_tv_series''
      else if ty = ''person'' then ''media_person''
      else if ty = ''user'' then ''user''
      else if ty = ''playlist'' then ''playlists''
      else ''undefined'')"

definition all_hydrations ::
  "env \<Rightarrow> search_result list \<Rightarrow> best_meta option \<Rightarrow> (event list \<times> (js_error + item list)) list" where
  "all_hydrations e results bestResultMeta =
     [ hydrateByIds e ''media_movie'' (hit_ids (results ! 0)),
       hydrateByIds e ''media_tv_series'' (hit_ids (results ! 1)),
       hydrateByIds e ''media_person'' (hit_ids (results ! 2)),
       hydrateByIds e ''user'' (hit_ids (results ! 3)),
       hydrateByIds e ''playlists'' (hit_ids (results ! 4)),
       (case bestResultMeta of
          None \<Rightarrow> ([], Inr [])
        | Some b \<Rightarrow> hydrateByIds e (getTableNameForType (bm_type b)) [bm_id b]) ]"

definition searchAll :: "env \<Rightarrow> string option \<Rightarrow> string \<Rightarrow> event list \<times> multi_result reply" where
  "searchAll e userId q =
     (let searches = searchAll_searches userId q in
      case engine_multi_search e searches of
        Inl err \<Rightarrow> all_search_failed [EngineMultiSearch searches] err
      | Inr results \<Rightarrow>
          if length results < 5
          then all_search_failed [EngineMultiSearch searches]
                 (TypeError ''Cannot read properties of undefined'')
          else
            (let bestResultMeta =
                   select_best (potentialBest (results ! 0) (results ! 1) (results ! 2)
                                  (results ! 3) (results ! 4))
             in case promise_all (all_hydrations e results bestResultMeta) of
                  (evs, Inl err) \<Rightarrow> all_search_failed (EngineMultiSearch searches # evs) err
                | (evs, Inr hs) \<Rightarrow>
                    (EngineMultiSearch searches # evs,
                     Ok200
                       \<lparr> mr_bestResult =
                           (case bestResultMeta of
                              None \<Rightarrow> None
                            | Some b \<Rightarrow>
                                (case hs ! 5 of
                                   [] \<Rightarrow> None
                                 | x # _ \<Rightarrow> Some \<lparr> br_type = bm_type b, br_data = Some x \<rparr>)),
                         mr_movies = type_result (hs ! 0) (results ! 0) resultsPerType,
                         mr_tv_series = type_result (hs ! 1) (results ! 1) resultsPerType,
                         mr_persons = type_result (hs ! 2) (results ! 2) resultsPerType,
                         mr_users = type_result (hs ! 3) (results ! 3) resultsPerType,
                         mr_playlists = type_result (hs ! 4) (results ! 4) resultsPerType \<rparr>)))"

section \<open>Fixtures\<close>

text \<open>A small engine and store to run the handlers on: the movies collection has the hit
  603 (relevance 8, popularity 100) out of 50 matches, the users collection the hit
  \<open>u1\<close>; the store holds both records. In \<open>fixture_env\<close> every query succeeds; in
  \<open>store_down_env\<close> the store fails on the user table; in \<open>past_end_env\<close> the engine
  reports 50 matches and an empty page of hits.\<close>

definition movie_hit_603 :: hit where
  "movie_hit_603 =
     \<lparr> hit_document = \<lparr> doc_id = ''603'', doc_popularity = Some 100,
                        doc_followers_count = None, doc_likes_count = None \<rparr>,
       hit_text_match = Some 8 \<rparr>"

definition user_hit_u1 :: hit where
  "user_hit_u1 =
     \<lparr> hit_document = \<lparr> doc_id = ''u1'', doc_popularity = None,
                        doc_followers_count = Some 500, doc_likes_count = None \<rparr>,
       hit_text_match = Some 4 \<rparr>"

definition fixture_results :: "search_result list" where
  "fixture_results =
     [ \<lparr> sr_hits = Some [movie_hit_603], sr_found = 50 \<rparr>, no_hit, no_hit,
       \<lparr> sr_hits = Some [user_hit_u1], sr_found = 1 \<rparr>, no_hit ]"

definition fixture_store :: "string \<Rightarrow> string \<Rightarrow> jsid list \<Rightarrow> string + item list" where
  "fixture_store tableName columns ids =
     (if tableName = ''media_movie''
        then Inr [\<lparr> item_id = NumId 603, item_body = ''The Matrix'' \<rparr>]
      else if tableName = ''user'' then Inr [\<lparr> item_id = StrId ''u1'', item_body = ''neo'' \<rparr>]
      else Inr [])"

definition fixture_env :: env where
  "fixture_env =
     \<lparr> engine_search = (\<lambda>p. Inr \<lparr> sr_hits = Some [movie_hit_603], sr_found = 50 \<rparr>),
       engine_multi_search = (\<lambda>ps. Inr fixture_results),
       store_select = fixture_store \<rparr>"


definition past_end_env :: env where
  "past_end_env =
     \<lparr> engine_search = (\<lambda>p. Inr \<lparr> sr_hits = Some [], sr_found = 50 \<rparr>),
       engine_multi_search = (\<lambda>ps. Inr fixture_results),
       store_select = fixture_store \<rparr>"

definition movie_request :: "nat \<Rightarrow> nat \<Rightarrow> movie_query" where
  "movie_request page n =
     \<lparr> mq_query = ''matrix'', mq_page = page, mq_per_page = n, mq_sort_by = ''popularity'',
       mq_genre_ids = None, mq_runtime_min = None, mq_runtime_max = None,
       mq_release_date_min = None, mq_release_date_max = None \<rparr>"


text \<open>The pagination block of a page \<open>page\<close> of size \<open>n\<close> over \<open>found\<close> matches, to state
  what the handlers return.\<close>

definition pagination_block :: "nat \<Rightarrow> nat \<Rightarrow> nat \<Rightarrow> pagination" where
  "pagination_block found page n =
     \<lparr> total_results = found, total_pages = Math_ceil_div found n,
       current_page = page, per_page = n \<rparr>"

definition user_request :: "nat \<Rightarrow> nat \<Rightarrow> user_query" where
  "user_request page n =
     \<lparr> uq_query = ''neo'', uq_page = page, uq_per_page = n, uq_exclude_ids = None \<rparr>"

section \<open>Lemmas on the primitives\<close>

lemma truthy_num_simps:
  "truthy_num None = False" "truthy_num (Some n) = (n \<noteq> 0)"
  by (simp_all add: truthy_num_def)





lemma show_int_small:
  "show_int 0 = ''0''" "show_int 10 = ''10''" "show_int 20 = ''20''" "show_int 2000 = ''2000''"
  by (simp_all add: show_int_def show_nat.simps digit_char_def)

lemma join_filters_simps:
  "join_filters [] = None"
  "join_filters [t1] = Some t1"
  "join_filters (t1 # t2 # ts) = Some (t1 @ '' && '' @ join '' && '' (t2 # ts))"
  by (simp_all add: join_filters_def)

lemma range_filter_both:
  assumes "a \<noteq> 0" and "b \<noteq> 0"
  shows "range_filter f (Some a) (Some b) = [closed_range_term f a b]"
  using assms by (simp add: range_filter_def truthy_num_simps template_num_def closed_range_term_def)

lemma range_filter_min_only:
  assumes "a \<noteq> 0" and "mx = None \<or> mx = Some 0"
  shows "range_filter f (Some a) mx = [greater_than_term f a]"
  using assms by (auto simp: range_filter_def truthy_num_simps template_num_def greater_than_term_def)

lemma range_filter_max_only:
  assumes "b \<noteq> 0" and "mn = None \<or> mn = Some 0"
  shows "range_filter f mn (Some b) = [less_than_term f b]"
  using assms by (auto simp: range_filter_def truthy_num_simps template_num_def less_than_term_def)

lemma range_filter_neither:
  assumes "mn = None \<or> mn = Some 0" and "mx = None \<or> mx = Some 0"
  shows "range_filter f mn mx = []"
  using assms by (auto simp: range_filter_def truthy_num_simps)

section \<open>Sort expressions\<close>

lemma searchPlaylists_sort_by:
  "sp_sort_by (searchPlaylists_params userId rq) = Some (lq_sort_by rq @ '':desc'')"
  by (simp add: searchPlaylists_params_def)

text \<open>
  C4, as stated, says that every query the controller builds sorts by relevance first.
  It fails: the all-types endpoint sends its five queries with no sort expression at all,
  and the playlists endpoint sorts by the caller's field alone.
\<close>

theorem sort_expression_counterexample:
  "map sp_sort_by (searchAll_searches None ''dune'') = [None, None, None, None, None]
   \<and> sp_sort_by (searchPlaylists_params None
         \<lparr> lq_query = ''dune'', lq_page = 1, lq_per_page = 10, lq_sort_by = ''likes_count'' \<rparr>)
       = Some ''likes_count:desc''
   \<and> \<not> relevance_first ''likes_count:desc''"
  by (simp add: searchAll_searches_def multi_spec_def searchPlaylists_params_def
      relevance_first_def)

text \<open>
  C4, amended: the movies, TV-series and persons endpoints sort by relevance in ten buckets
  and then by the caller's field, descending; the users endpoint sorts by relevance and
  then by the fixed field \<open>followers_count\<close>; the five queries of the best-results
  endpoint sort by relevance and then by the fixed field of their type (popularity for
  movies, TV series and persons, followers for users, likes for playlists); the all-types
  endpoint sends no sort expression.
\<close>

theorem sort_expression_by_endpoint:
  "sp_sort_by (searchMovies_params mq)
     = Some (''_text_match(buckets: 10):desc,'' @ mq_sort_by mq @ '':desc'')
   \<and> sp_sort_by (searchTVSeries_params tq)
     = Some (''_text_match(buckets: 10):desc,'' @ tq_sort_by tq @ '':desc'')
   \<and> sp_sort_by (searchPersons_params pq)
     = Some (''_text_match(buckets: 10):desc,'' @ pq_sort_by pq @ '':desc'')
   \<and> sp_sort_by (searchUsers_params uq)
     = Some ''_text_match(buckets: 10):desc, followers_count:desc''
   \<and> map sp_sort_by (searchBestResult_searches userId q n)
     = [ Some ''_text_match(buckets: 10):desc,popularity:desc'',
         Some ''_text_match(buckets: 10):desc,popularity:desc'',
         Some ''_text_match(buckets: 10):desc,popularity:desc'',
         Some ''_text_match(buckets: 10):desc,followers_count:desc'',
         Some ''_text_match(buckets: 10):desc,likes_count:desc'' ]
   \<and> list_all relevance_first
         (List.map_filter sp_sort_by
            ([searchMovies_params mq, searchTVSeries_params tq, searchPersons_params pq,
              searchUsers_params uq] @ searchBestResult_searches userId q n))
   \<and> map sp_sort_by (searchAll_searches userId q) = [None, None, None, None, None]"
proof -
  have single:
    "sp_sort_by (searchMovies_params mq)
       = Some (''_text_match(buckets: 10):desc,'' @ mq_sort_by mq @ '':desc'')"
    "sp_sort_by (searchTVSeries_params tq)
       = Some (''_text_match(buckets: 10):desc,'' @ tq_sort_by tq @ '':desc'')"
    "sp_sort_by (searchPersons_params pq)
       = Some (''_text_match(buckets: 10):desc,'' @ pq_sort_by pq @ '':desc'')"
    "sp_sort_by (searchUsers_params uq)
       = Some ''_text_match(buckets: 10):desc, followers_count:desc''"
    by (simp_all add: searchMovies_params_def searchTVSeries_params_def
        searchPersons_params_def searchUsers_params_def)
  have best: "map sp_sort_by (searchBestResult_searches userId q n)
     = [ Some ''_text_match(buckets: 10):desc,popularity:desc'',
         Some ''_text_match(buckets: 10):desc,popularity:desc'',
         Some ''_text_match(buckets: 10):desc,popularity:desc'',
         Some ''_text_match(buckets: 10):desc,followers_count:desc'',
         Some ''_text_match(buckets: 10):desc,likes_count:desc'' ]"
    by (simp add: searchBestResult_searches_def multi_spec_def)
  have mf: "List.map_filter sp_sort_by (xs @ ys)
      = List.map_filter id (map sp_sort_by xs @ map sp_sort_by ys)"
    for xs ys :: "search_params list"
    by (simp add: List.map_filter_def filter_map comp_def)
  have rel: "list_all relevance_first
         (List.map_filter sp_sort_by
            ([searchMovies_params mq, searchTVSeries_params tq, searchPersons_params pq,
              searchUsers_params uq] @ searchBestResult_searches userId q n))"
    unfolding mf best by (simp add: single List.map_filter_def relevance_first_def)
  have allm: "map sp_sort_by (searchAll_searches userId q) = [None, None, None, None, None]"
    by (simp add: searchAll_searches_def multi_spec_def)
  from single best rel allm show ?thesis by blast
qed

section \<open>The filter builder\<close>

text \<open>
  C6, as stated, says that two present bounds always give a closed range term. It fails
  when a bound is present with the value 0: the handler tests the bounds for truthiness,
  so the request \<open>runtime_min = 0, runtime_max = 20\<close> yields the strictly-less-than term.
\<close>

theorem filter_builder_zero_bound_counterexample:
  "sp_filter_by (searchMovies_params
      \<lparr> mq_query = ''dune'', mq_page = 1, mq_per_page = 10, mq_sort_by = ''popularity'',
        mq_genre_ids = None, mq_runtime_min = Some 0, mq_runtime_max = Some 20,
        mq_release_date_min = None, mq_release_date_max = None \<rparr>)
     = Some ''runtime: <20''
   \<and> closed_range_term ''runtime'' 0 20 = ''runtime: [0..20]''"
  by (simp add: searchMovies_params_def movie_filters_def genre_filter_def range_filter_def
      truthy_num_simps template_num_def join_filters_def closed_range_term_def show_int_small)

text \<open>
  C6, amended: a bound counts as supplied when it is present and not 0. For every numeric
  dimension, two supplied bounds yield the closed inclusive range term, a supplied minimum
  alone the strictly-greater-than term, a supplied maximum alone the strictly-less-than
  term, and no supplied bound no term. The filter expression of the movies and of the
  TV-series query is the list of the terms of the genre block and of the range dimensions,
  in this order, joined with \<open>&&\<close>; it is absent when there is no term.
\<close>

theorem filter_builder_range_terms:
  assumes "a \<noteq> 0" and "b \<noteq> 0"
    and "mn = None \<or> mn = Some 0" and "mx = None \<or> mx = Some 0"
  shows "range_filter f (Some a) (Some b) = [closed_range_term f a b]
       \<and> range_filter f (Some a) mx = [greater_than_term f a]
       \<and> range_filter f mn (Some b) = [less_than_term f b]
       \<and> range_filter f mn mx = []
       \<and> sp_filter_by (searchMovies_params mq)
           = join_filters (genre_filter (mq_genre_ids mq)
               @ range_filter ''runtime'' (mq_runtime_min mq) (mq_runtime_max mq)
               @ range_filter ''release_date'' (mq_release_date_min mq) (mq_release_date_max mq))
       \<and> sp_filter_by (searchTVSeries_params tq)
           = join_filters (genre_filter (tq_genre_ids tq)
               @ range_filter ''number_of_seasons''
                   (tq_number_of_seasons_min tq) (tq_number_of_seasons_max tq)
               @ range_filter ''number_of_episodes''
                   (tq_number_of_episodes_min tq) (tq_number_of_episodes_max tq)
               @ range_filter ''vote_average'' (tq_vote_average_min tq) (tq_vote_average_max tq)
               @ range_filter ''first_air_date''
                   (tq_first_air_date_min tq) (tq_first_air_date_max tq))
       \<and> join_filters [] = None
       \<and> join_filters [t1] = Some t1
       \<and> join_filters (t1 # t2 # ts) = Some (t1 @ '' && '' @ join '' && '' (t2 # ts))"
proof -
  note r = range_filter_both [OF assms(1,2)] range_filter_min_only [OF assms(1,4)]
    range_filter_max_only [OF assms(2,3)] range_filter_neither [OF assms(3,4)]
  have m: "sp_filter_by (searchMovies_params mq) = join_filters (movie_filters mq)"
    by (simp add: searchMovies_params_def)
  have t: "sp_filter_by (searchTVSeries_params tq) = join_filters (tv_filters tq)"
    by (simp add: searchTVSeries_params_def)
  show ?thesis
    unfolding m t movie_filters_def tv_filters_def
    using r join_filters_simps by blast
qed

theorem filter_builder_range_terms_witness:
  "range_filter ''runtime'' (Some 10) (Some 20) = [''runtime: [10..20]'']
   \<and> range_filter ''runtime'' (Some 10) None = [''runtime: >10'']
   \<and> range_filter ''runtime'' (Some 0) (Some 20) = [''runtime: <20'']
   \<and> range_filter ''runtime'' (Some 0) None = []
   \<and> join_filters [''runtime: [10..20]'', ''release_date: <2000'']
       = Some ''runtime: [10..20] && release_date: <2000''"
  using filter_builder_range_terms [of 10 20 "Some 0" None "''runtime''" _ _
      "''runtime: [10..20]''" "''release_date: <2000''" "[]"]
  by (simp add: closed_range_term_def greater_than_term_def less_than_term_def show_int_small)

text \<open>
  C10: a bound supplied with the value 0 is treated as absent. For every dimension
  (the builders run the same block on each of their dimensions), the bounds \<open>(0, max)\<close> with a supplied
  maximum emit only the strictly-less-than term, and the bounds \<open>(0, absent)\<close> emit no
  term: with \<open>runtime_min = 0\<close> or \<open>vote_average_min = 0\<close> and no maximum, the dimension
  adds nothing to the filters of the request.
\<close>

theorem zero_bound_is_absent:
  assumes "b \<noteq> 0"
  shows "range_filter f (Some 0) (Some b) = [less_than_term f b]
       \<and> range_filter f (Some 0) (Some b) = range_filter f None (Some b)
       \<and> range_filter f (Some 0) None = []
       \<and> movie_filters mq
           = genre_filter (mq_genre_ids mq)
             @ range_filter ''runtime'' (mq_runtime_min mq) (mq_runtime_max mq)
             @ range_filter ''release_date'' (mq_release_date_min mq) (mq_release_date_max mq)
       \<and> tv_filters tq
           = genre_filter (tq_genre_ids tq)
             @ range_filter ''number_of_seasons''
                 (tq_number_of_seasons_min tq) (tq_number_of_seasons_max tq)
             @ range_filter ''number_of_episodes''
                 (tq_number_of_episodes_min tq) (tq_number_of_episodes_max tq)
             @ range_filter ''vote_average'' (tq_vote_average_min tq) (tq_vote_average_max tq)
             @ range_filter ''first_air_date''
                 (tq_first_air_date_min tq) (tq_first_air_date_max tq)
       \<and> movie_filters (mq\<lparr>mq_runtime_min := Some 0, mq_runtime_max := None\<rparr>)
           = genre_filter (mq_genre_ids mq)
             @ range_filter ''release_date'' (mq_release_date_min mq) (mq_release_date_max mq)
       \<and> tv_filters (tq\<lparr>tq_vote_average_min := Some 0, tq_vote_average_max := None\<rparr>)
           = genre_filter (tq_genre_ids tq)
             @ range_filter ''number_of_seasons''
                 (tq_number_of_seasons_min tq) (tq_number_of_seasons_max tq)
             @ range_filter ''number_of_episodes''
                 (tq_number_of_episodes_min tq) (tq_number_of_episodes_max tq)
             @ range_filter ''first_air_date''
                 (tq_first_air_date_min tq) (tq_first_air_date_max tq)"
proof -
  have z: "range_filter g (Some 0) None = []" for g
    by (rule range_filter_neither) simp_all
  have lt: "range_filter f mn (Some b) = [less_than_term f b]"
    if "mn = None \<or> mn = Some 0" for mn
    using assms that by (rule range_filter_max_only)
  have m: "movie_filters mq
           = genre_filter (mq_genre_ids mq)
             @ range_filter ''runtime'' (mq_runtime_min mq) (mq_runtime_max mq)
             @ range_filter ''release_date'' (mq_release_date_min mq) (mq_release_date_max mq)"
    by (simp add: movie_filters_def)
  have t: "tv_filters tq
           = genre_filter (tq_genre_ids tq)
             @ range_filter ''number_of_seasons''
                 (tq_number_of_seasons_min tq) (tq_number_of_seasons_max tq)
             @ range_filter ''number_of_episodes''
                 (tq_number_of_episodes_min tq) (tq_number_of_episodes_max tq)
             @ range_filter ''vote_average'' (tq_vote_average_min tq) (tq_vote_average_max tq)
             @ range_filter ''first_air_date''
                 (tq_first_air_date_min tq) (tq_first_air_date_max tq)"
    by (simp add: tv_filters_def)
  have m0: "movie_filters (mq\<lparr>mq_runtime_min := Some 0, mq_runtime_max := None\<rparr>)
           = genre_filter (mq_genre_ids mq)
             @ range_filter ''release_date'' (mq_release_date_min mq) (mq_release_date_max mq)"
    by (simp add: z movie_filters_def)
  have t0: "tv_filters (tq\<lparr>tq_vote_average_min := Some 0, tq_vote_average_max := None\<rparr>)
           = genre_filter (tq_genre_ids tq)
             @ range_filter ''number_of_seasons''
                 (tq_number_of_seasons_min tq) (tq_number_of_seasons_max tq)
             @ range_filter ''number_of_episodes''
                 (tq_number_of_episodes_min tq) (tq_number_of_episodes_max tq)
             @ range_filter ''first_air_date''
                 (tq_first_air_date_min tq) (tq_first_air_date_max tq)"
    by (simp add: z tv_filters_def)
  have l: "range_filter f (Some 0) (Some b) = [less_than_term f b]"
    "range_filter f None (Some b) = [less_than_term f b]"
    by (simp_all add: lt)
  from l z [of f] m t m0 t0 show ?thesis by simp
qed

theorem zero_bound_is_absent_witness:
  "range_filter ''vote_average'' (Some 0) (Some 20) = [''vote_average: <20'']
   \<and> range_filter ''vote_average'' (Some 0) None = []"
  using zero_bound_is_absent [of 20 "''vote_average''"]
  by (simp add: less_than_term_def show_int_small)

section \<open>The playlist permission filter\<close>






section \<open>Double-precision rounding\<close>




























section \<open>The best-result selector\<close>

lemma scored_with_Nil: "scored_with mt mp [] = []"
  by (simp add: scored_with_def List.map_filter_def)

lemma scored_with_Cons:
  "scored_with mt mp (c # pb) =
     (case snd c of None \<Rightarrow> scored_with mt mp pb
      | Some h \<Rightarrow> candidate_meta mt mp (fst c) h # scored_with mt mp pb)"
  by (simp add: scored_with_def List.map_filter_def split: option.split)

lemma score_candidate_meta: "bm_score (candidate_meta mt mp ty h) = hybridScore mt mp h"
  by (simp add: candidate_meta_def)

lemma loop_from_some:
  "\<exists>b. foldl (best_step mt mp) (Some a) pb = Some b \<and>
     ((b = a \<and> (\<forall>c\<in>set (scored_with mt mp pb). bm_score c \<le> bm_score a)) \<or>
      (\<exists>pre post. scored_with mt mp pb = pre @ b # post \<and> bm_score a < bm_score b \<and>
          (\<forall>c\<in>set pre. bm_score c < bm_score b) \<and> (\<forall>c\<in>set post. bm_score c \<le> bm_score b)))"
proof (induction pb arbitrary: a)
  case Nil
  show ?case by (simp add: scored_with_Nil)
next
  case (Cons c pb)
  show ?case
  proof (cases "snd c")
    case None
    then have "best_step mt mp (Some a) c = Some a" by (simp add: best_step_def)
    with None Cons.IH [of a] show ?thesis by (simp add: scored_with_Cons)
  next
    case (Some h)
    let ?n = "candidate_meta mt mp (fst c) h"
    have sc: "scored_with mt mp (c # pb) = ?n # scored_with mt mp pb"
      using Some by (simp add: scored_with_Cons)
    show ?thesis
    proof (cases "hybridScore mt mp h > bm_score a")
      case True
      then have st: "best_step mt mp (Some a) c = Some ?n"
        using Some by (simp add: best_step_def)
      from Cons.IH [of ?n] obtain b where
        b: "foldl (best_step mt mp) (Some ?n) pb = Some b"
        and d: "(b = ?n \<and> (\<forall>x\<in>set (scored_with mt mp pb). bm_score x \<le> bm_score ?n)) \<or>
          (\<exists>pre post. scored_with mt mp pb = pre @ b # post \<and> bm_score ?n < bm_score b \<and>
             (\<forall>x\<in>set pre. bm_score x < bm_score b) \<and> (\<forall>x\<in>set post. bm_score x \<le> bm_score b))"
        by blast
      have lt: "bm_score a < bm_score ?n" using True by (simp add: score_candidate_meta)
      from d have "\<exists>pre post. scored_with mt mp (c # pb) = pre @ b # post \<and> bm_score a < bm_score b \<and>
          (\<forall>x\<in>set pre. bm_score x < bm_score b) \<and> (\<forall>x\<in>set post. bm_score x \<le> bm_score b)"
      proof
        assume h1: "b = ?n \<and> (\<forall>x\<in>set (scored_with mt mp pb). bm_score x \<le> bm_score ?n)"
        then have "scored_with mt mp (c # pb) = [] @ b # scored_with mt mp pb" using sc by simp
        with h1 lt show ?thesis by (metis empty_iff list.set(1))
      next
        assume "\<exists>pre post. scored_with mt mp pb = pre @ b # post \<and> bm_score ?n < bm_score b \<and>
             (\<forall>x\<in>set pre. bm_score x < bm_score b) \<and> (\<forall>x\<in>set post. bm_score x \<le> bm_score b)"
        then obtain pre post where p: "scored_with mt mp pb = pre @ b # post"
          "bm_score ?n < bm_score b" "\<forall>x\<in>set pre. bm_score x < bm_score b"
          "\<forall>x\<in>set post. bm_score x \<le> bm_score b" by blast
        have "scored_with mt mp (c # pb) = (?n # pre) @ b # post" using sc p(1) by simp
        moreover have "\<forall>x\<in>set (?n # pre). bm_score x < bm_score b" using p(2,3) by simp
        moreover have "bm_score a < bm_score b" using lt p(2) by simp
        ultimately show ?thesis using p(4) by blast
      qed
      with b st show ?thesis by simp
    next
      case False
      then have st: "best_step mt mp (Some a) c = Some a"
        using Some by (simp add: best_step_def)
      have le: "bm_score ?n \<le> bm_score a" using False by (simp add: score_candidate_meta)
      from Cons.IH [of a] obtain b where
        b: "foldl (best_step mt mp) (Some a) pb = Some b"
        and d: "(b = a \<and> (\<forall>x\<in>set (scored_with mt mp pb). bm_score x \<le> bm_score a)) \<or>
          (\<exists>pre post. scored_with mt mp pb = pre @ b # post \<and> bm_score a < bm_score b \<and>
             (\<forall>x\<in>set pre. bm_score x < bm_score b) \<and> (\<forall>x\<in>set post. bm_score x \<le> bm_score b))"
        by blast
      from d have "(b = a \<and> (\<forall>x\<in>set (scored_with mt mp (c # pb)). bm_score x \<le> bm_score a)) \<or>
          (\<exists>pre post. scored_with mt mp (c # pb) = pre @ b # post \<and> bm_score a < bm_score b \<and>
             (\<forall>x\<in>set pre. bm_score x < bm_score b) \<and> (\<forall>x\<in>set post. bm_score x \<le> bm_score b))"
      proof
        assume "b = a \<and> (\<forall>x\<in>set (scored_with mt mp pb). bm_score x \<le> bm_score a)"
        then show ?thesis using sc le by simp
      next
        assume "\<exists>pre post. scored_with mt mp pb = pre @ b # post \<and> bm_score a < bm_score b \<and>
             (\<forall>x\<in>set pre. bm_score x < bm_score b) \<and> (\<forall>x\<in>set post. bm_score x \<le> bm_score b)"
        then obtain pre post where p: "scored_with mt mp pb = pre @ b # post"
          "bm_score a < bm_score b" "\<forall>x\<in>set pre. bm_score x < bm_score b"
          "\<forall>x\<in>set post. bm_score x \<le> bm_score b" by blast
        have "scored_with mt mp (c # pb) = (?n # pre) @ b # post" using sc p(1) by simp
        moreover have "\<forall>x\<in>set (?n # pre). bm_score x < bm_score b" using p(2,3) le by simp
        ultimately show ?thesis using p(2,4) by blast
      qed
      with b st show ?thesis by simp
    qed
  qed
qed

lemma loop_from_none:
  "(scored_with mt mp pb = [] \<and> foldl (best_step mt mp) None pb = None) \<or>
   (\<exists>b pre post. foldl (best_step mt mp) None pb = Some b \<and>
       scored_with mt mp pb = pre @ b # post \<and>
       (\<forall>c\<in>set pre. bm_score c < bm_score b) \<and> (\<forall>c\<in>set post. bm_score c \<le> bm_score b))"
proof (induction pb)
  case Nil
  show ?case by (simp add: scored_with_Nil)
next
  case (Cons c pb)
  show ?case
  proof (cases "snd c")
    case None
    then have "best_step mt mp None c = None" by (simp add: best_step_def)
    with None Cons.IH show ?thesis by (simp add: scored_with_Cons)
  next
    case (Some h)
    let ?n = "candidate_meta mt mp (fst c) h"
    have sc: "scored_with mt mp (c # pb) = ?n # scored_with mt mp pb"
      using Some by (simp add: scored_with_Cons)
    have st: "best_step mt mp None c = Some ?n" using Some by (simp add: best_step_def)
    from loop_from_some [of mt mp ?n pb] obtain b where
      b: "foldl (best_step mt mp) (Some ?n) pb = Some b"
      and d: "(b = ?n \<and> (\<forall>x\<in>set (scored_with mt mp pb). bm_score x \<le> bm_score ?n)) \<or>
        (\<exists>pre post. scored_with mt mp pb = pre @ b # post \<and> bm_score ?n < bm_score b \<and>
           (\<forall>x\<in>set pre. bm_score x < bm_score b) \<and> (\<forall>x\<in>set post. bm_score x \<le> bm_score b))"
      by blast
    from d have "\<exists>pre post. scored_with mt mp (c # pb) = pre @ b # post \<and>
        (\<forall>x\<in>set pre. bm_score x < bm_score b) \<and> (\<forall>x\<in>set post. bm_score x \<le> bm_score b)"
    proof
      assume h1: "b = ?n \<and> (\<forall>x\<in>set (scored_with mt mp pb). bm_score x \<le> bm_score ?n)"
      then have "scored_with mt mp (c # pb) = [] @ b # scored_with mt mp pb" using sc by simp
      with h1 show ?thesis by (metis empty_iff list.set(1))
    next
      assume "\<exists>pre post. scored_with mt mp pb = pre @ b # post \<and> bm_score ?n < bm_score b \<and>
           (\<forall>x\<in>set pre. bm_score x < bm_score b) \<and> (\<forall>x\<in>set post. bm_score x \<le> bm_score b)"
      then obtain pre post where p: "scored_with mt mp pb = pre @ b # post"
        "bm_score ?n < bm_score b" "\<forall>x\<in>set pre. bm_score x < bm_score b"
        "\<forall>x\<in>set post. bm_score x \<le> bm_score b" by blast
      have "scored_with mt mp (c # pb) = (?n # pre) @ b # post" using sc p(1) by simp
      moreover have "\<forall>x\<in>set (?n # pre). bm_score x < bm_score b" using p(2,3) by simp
      ultimately show ?thesis using p(4) by blast
    qed
    with b st show ?thesis by simp
  qed
qed

lemma select_best_cases:
  "(scored pb = [] \<and> select_best pb = None) \<or>
   (\<exists>b pre post. select_best pb = Some b \<and> scored pb = pre @ b # post \<and>
       (\<forall>c\<in>set pre. bm_score c < bm_score b) \<and> (\<forall>c\<in>set post. bm_score c \<le> bm_score b))"
  unfolding select_best_def scored_def by (rule loop_from_none)





lemma scored_empty_iff:
  "(scored (potentialBest m t p u l) = []) =
     (first_hit m = None \<and> first_hit t = None \<and> first_hit p = None \<and> first_hit u = None
      \<and> first_hit l = None)"
  by (auto simp: scored_def scored_with_def potentialBest_def List.map_filter_def)












section \<open>Hydration\<close>











section \<open>The single-collection handlers and the pagination block\<close>

lemma hit_ids_empty_iff:
  "(hit_ids sr = []) = (sr_hits sr = None \<or> sr_hits sr = Some [])"
  by (cases "sr_hits sr") (simp_all add: hit_ids_def)

lemma hydrate_page_no_hit:
  assumes "hit_ids sr = []"
  shows "hydrate_page e sr tableName columns store_id map_key page n
       = ([], Inr \<lparr> pr_data = [],
                     pr_pagination = \<lparr> total_results = 0, total_pages = Finite 0,
                                       current_page = page, per_page = n \<rparr> \<rparr>)"
  using assms by (simp add: hydrate_page_def)

lemma hydrate_page_hits:
  assumes "hit_ids sr \<noteq> []"
  shows "hydrate_page e sr tableName columns store_id map_key page n
       = ([StoreSelect tableName columns (map store_id (hit_ids sr))],
          case store_select e tableName columns (map store_id (hit_ids sr)) of
            Inl message \<Rightarrow> Inl (Error message)
          | Inr data \<Rightarrow>
              Inr \<lparr> pr_data = reorder map_key data (map StrId (hit_ids sr)),
                    pr_pagination =
                      \<lparr> total_results = sr_found sr,
                        total_pages = Math_ceil_div (sr_found sr) n,
                        current_page = page, per_page = n \<rparr> \<rparr>)"
  using assms by (simp add: hydrate_page_def Let_def split: sum.split)

lemma run_single_no_hit:
  assumes "engine_search e params = Inr sr" and "hit_ids sr = []"
  shows "run_single e params
           (\<lambda>r. hydrate_page e r tableName columns store_id map_key page n) failed
       = ([EngineSearch params],
          Ok200 \<lparr> pr_data = [],
                  pr_pagination = \<lparr> total_results = 0, total_pages = Finite 0,
                                    current_page = page, per_page = n \<rparr> \<rparr>)"
  using assms by (simp add: run_single_def hydrate_page_no_hit)

lemma run_single_hits_ok:
  assumes "engine_search e params = Inr sr" and "hit_ids sr \<noteq> []"
    and "run_single e params
           (\<lambda>r. hydrate_page e r tableName columns store_id map_key page n) failed
         = (tr, Ok200 r)"
  shows "pr_pagination r
       = \<lparr> total_results = sr_found sr, total_pages = Math_ceil_div (sr_found sr) n,
           current_page = page, per_page = n \<rparr>"
  using assms
  by (auto simp: run_single_def hydrate_page_hits split: sum.splits)

lemma ceiling_div_nat:
  assumes "1 \<le> n"
  shows "\<lceil>rat_of_nat found / rat_of_nat n\<rceil> = int ((found + n - 1) div n)"
proof -
  have n0: "n > 0" using assms by simp
  define k where "k = (found + n - 1) div n"
  have up: "found \<le> k * n"
  proof -
    have "found + n - 1 < (k + 1) * n"
      unfolding k_def using n0 by (metis Suc_eq_plus1 dividend_less_div_times mult.commute add.commute mult_Suc)
    then show ?thesis using n0 by (simp add: algebra_simps)
  qed
  have lo: "k * n < found + n"
  proof -
    have "k * n \<le> found + n - 1" unfolding k_def by simp
    then show ?thesis using n0 by linarith
  qed
  have "rat_of_nat found / rat_of_nat n \<le> rat_of_nat k"
    using up n0 by (simp add: divide_le_eq flip: of_nat_mult)
  moreover have "rat_of_nat k - 1 < rat_of_nat found / rat_of_nat n"
  proof -
    have "rat_of_nat (k * n) < rat_of_nat (found + n)" using lo by (simp only: of_nat_less_iff)
    then have "(rat_of_nat k - 1) * rat_of_nat n < rat_of_nat found"
      by (simp add: algebra_simps)
    then show ?thesis using n0 by (simp add: less_divide_eq)
  qed
  ultimately have "\<lceil>rat_of_nat found / rat_of_nat n\<rceil> = int k"
    by (intro ceiling_unique) simp_all
  then show ?thesis by (simp add: k_def)
qed

lemma Math_ceil_div_zero_iff:
  assumes "1 \<le> n"
  shows "(Math_ceil_div found n = Finite 0) = (found = 0)"
proof -
  have "((found + n - 1) div n = 0) = (found = 0)"
    using assms by (auto simp: div_eq_0_iff)
  then show ?thesis using assms ceiling_div_nat [OF assms, of found]
    by (simp add: Math_ceil_div_def)
qed

lemma past_end_run:
  "searchMovies past_end_env (movie_request 6 10)
     = ([EngineSearch (searchMovies_params (movie_request 6 10))],
        Ok200 \<lparr> pr_data = [],
                pr_pagination = \<lparr> total_results = 0, total_pages = Finite 0,
                                  current_page = 6, per_page = 10 \<rparr> \<rparr>)"
proof -
  have "searchMovies past_end_env (movie_request 6 10)
     = ([EngineSearch (searchMovies_params (movie_request 6 10))],
        Ok200 \<lparr> pr_data = [],
                pr_pagination = \<lparr> total_results = 0, total_pages = Finite 0,
                                  current_page = mq_page (movie_request 6 10),
                                  per_page = mq_per_page (movie_request 6 10) \<rparr> \<rparr>)"
    unfolding searchMovies_def
    by (rule run_single_no_hit [where sr = "\<lparr> sr_hits = Some [], sr_found = 50 \<rparr>"])
      (simp_all add: past_end_env_def hit_ids_def)
  then show ?thesis by (simp add: movie_request_def)
qed

text \<open>
  C9: when the engine returns an empty or absent hit list to a single-collection
  handler, the handler sends nothing to the store (its only event is the engine query)
  and replies with success, an empty list and the pagination block
  \<open>{total_results: 0, total_pages: 0, current_page: P, per_page: N}\<close> of the request's
  page and page size. \<open>hydrateByIds\<close> on no id returns the empty list without a store
  selection either.
\<close>

theorem zero_hit_short_circuit:
  assumes "sr_hits sr = None \<or> sr_hits sr = Some []"
  shows "(engine_search e (searchMovies_params mq) = Inr sr \<longrightarrow>
            searchMovies e mq
              = ([EngineSearch (searchMovies_params mq)],
                 Ok200 \<lparr> pr_data = [],
                         pr_pagination = \<lparr> total_results = 0, total_pages = Finite 0,
                             current_page = mq_page mq, per_page = mq_per_page mq \<rparr> \<rparr>))
       \<and> (engine_search e (searchTVSeries_params tq) = Inr sr \<longrightarrow>
            searchTVSeries e tq
              = ([EngineSearch (searchTVSeries_params tq)],
                 Ok200 \<lparr> pr_data = [],
                         pr_pagination = \<lparr> total_results = 0, total_pages = Finite 0,
                             current_page = tq_page tq, per_page = tq_per_page tq \<rparr> \<rparr>))
       \<and> (engine_search e (searchPersons_params pq) = Inr sr \<longrightarrow>
            searchPersons e pq
              = ([EngineSearch (searchPersons_params pq)],
                 Ok200 \<lparr> pr_data = [],
                         pr_pagination = \<lparr> total_results = 0, total_pages = Finite 0,
                             current_page = pq_page pq, per_page = pq_per_page pq \<rparr> \<rparr>))
       \<and> (engine_search e (searchUsers_params uq) = Inr sr \<longrightarrow>
            searchUsers e uq
              = ([EngineSearch (searchUsers_params uq)],
                 Ok200 \<lparr> pr_data = [],
                         pr_pagination = \<lparr> total_results = 0, total_pages = Finite 0,
                             current_page = uq_page uq, per_page = uq_per_page uq \<rparr> \<rparr>))
       \<and> (engine_search e (searchPlaylists_params userId lq) = Inr sr \<longrightarrow>
            searchPlaylists e userId lq
              = ([EngineSearch (searchPlaylists_params userId lq)],
                 Ok200 \<lparr> pr_data = [],
                         pr_pagination = \<lparr> total_results = 0, total_pages = Finite 0,
                             current_page = lq_page lq, per_page = lq_per_page lq \<rparr> \<rparr>))
       \<and> hydrateByIds e tableName [] = ([], Inr [])"
proof -
  have h: "hit_ids sr = []" using assms by (simp add: hit_ids_empty_iff)
  note r = run_single_no_hit [OF _ h]
  show ?thesis
    unfolding searchMovies_def searchTVSeries_def searchPersons_def searchUsers_def
      searchPlaylists_def
    by (simp add: r hydrateByIds_def)
qed

theorem zero_hit_short_circuit_witness:
  "searchUsers past_end_env (user_request 2 20)
     = ([EngineSearch (searchUsers_params (user_request 2 20))],
        Ok200 \<lparr> pr_data = [],
                pr_pagination = \<lparr> total_results = 0, total_pages = Finite 0,
                                  current_page = 2, per_page = 20 \<rparr> \<rparr>)"
  using zero_hit_short_circuit
    [of "\<lparr> sr_hits = Some [], sr_found = 50 \<rparr>" past_end_env _ _ _ "user_request 2 20"]
  by (simp add: past_end_env_def user_request_def)

section \<open>The multi-collection handlers\<close>

lemma five_results:
  assumes "\<not> length xs < 5"
  shows "\<exists>a b c d f rest. xs = a # b # c # d # f # rest"
proof -
  have "Suc (Suc (Suc (Suc (Suc 0)))) \<le> length xs" using assms by simp
  then show ?thesis by (auto simp: Suc_le_length_iff)
qed

lemma all_or_error_Inr:
  assumes "all_or_error rs = Inr xs"
  shows "rs = map Inr xs"
  using assms
proof (induction rs arbitrary: xs)
  case Nil
  then show ?case by simp
next
  case (Cons r rs)
  then show ?case by (cases r) (auto split: sum.splits)
qed


lemma searchBestResult_ok:
  assumes "searchBestResult e userId q n = (tr, Ok200 mr)"
  shows "\<exists>m t p u l rest hs.
           engine_multi_search e (searchBestResult_searches userId q n)
             = Inr (m # t # p # u # l # rest)
         \<and> map snd (best_hydrations e (m # t # p # u # l # rest)) = map Inr hs
         \<and> tr = EngineMultiSearch (searchBestResult_searches userId q n)
                  # concat (map fst (best_hydrations e (m # t # p # u # l # rest)))
         \<and> mr_bestResult mr =
             map_option
               (\<lambda>b. \<lparr> br_type = bm_type b,
                      br_data = best_data b (hs ! 0) (hs ! 1) (hs ! 2) (hs ! 3) (hs ! 4) \<rparr>)
               (select_best (potentialBest m t p u l))
         \<and> mr_movies mr = type_result (hs ! 0) m n
         \<and> mr_tv_series mr = type_result (hs ! 1) t n
         \<and> mr_persons mr = type_result (hs ! 2) p n
         \<and> mr_users mr = type_result (hs ! 3) u n
         \<and> mr_playlists mr = type_result (hs ! 4) l n"
proof -
  let ?s = "searchBestResult_searches userId q n"
  from assms obtain results where res: "engine_multi_search e ?s = Inr results"
    by (cases "engine_multi_search e ?s")
      (simp_all add: searchBestResult_def all_search_failed_def)
  have len: "\<not> length results < 5"
    using assms res by (auto simp: searchBestResult_def all_search_failed_def)
  then obtain m t p u l rest where r: "results = m # t # p # u # l # rest"
    using five_results by blast
  obtain evs hyd where pa: "promise_all (best_hydrations e results) = (evs, hyd)"
    by (cases "promise_all (best_hydrations e results)")
  from assms res len pa obtain hs where hs: "hyd = Inr hs"
    by (cases hyd) (simp_all add: searchBestResult_def all_search_failed_def)
  have mr: "mr = \<lparr> mr_bestResult =
                           map_option
                             (\<lambda>b. \<lparr> br_type = bm_type b,
                                    br_data = best_data b (hs ! 0) (hs ! 1) (hs ! 2) (hs ! 3)
                                                (hs ! 4) \<rparr>)
                             (select_best (potentialBest (results ! 0) (results ! 1) (results ! 2)
                                  (results ! 3) (results ! 4))),
                         mr_movies = type_result (hs ! 0) (results ! 0) n,
                         mr_tv_series = type_result (hs ! 1) (results ! 1) n,
                         mr_persons = type_result (hs ! 2) (results ! 2) n,
                         mr_users = type_result (hs ! 3) (results ! 3) n,
                         mr_playlists = type_result (hs ! 4) (results ! 4) n \<rparr>"
    and tr: "tr = EngineMultiSearch ?s # evs"
    using assms res len pa hs by (simp_all add: searchBestResult_def)
  have evs: "evs = concat (map fst (best_hydrations e results))"
    and al: "all_or_error (map snd (best_hydrations e results)) = Inr hs"
    using pa hs by (simp_all add: promise_all_def)
  from al have "map snd (best_hydrations e results) = map Inr hs" by (rule all_or_error_Inr)
  with res r mr tr evs show ?thesis by simp
qed

lemma searchAll_ok:
  assumes "searchAll e userId q = (tr, Ok200 mr)"
  shows "\<exists>m t p u l rest hs.
           engine_multi_search e (searchAll_searches userId q) = Inr (m # t # p # u # l # rest)
         \<and> map snd (all_hydrations e (m # t # p # u # l # rest)
                       (select_best (potentialBest m t p u l))) = map Inr hs
         \<and> tr = EngineMultiSearch (searchAll_searches userId q)
                  # concat (map fst (all_hydrations e (m # t # p # u # l # rest)
                                       (select_best (potentialBest m t p u l))))
         \<and> mr_movies mr = type_result (hs ! 0) m resultsPerType
         \<and> mr_tv_series mr = type_result (hs ! 1) t resultsPerType
         \<and> mr_persons mr = type_result (hs ! 2) p resultsPerType
         \<and> mr_users mr = type_result (hs ! 3) u resultsPerType
         \<and> mr_playlists mr = type_result (hs ! 4) l resultsPerType"
proof -
  let ?s = "searchAll_searches userId q"
  from assms obtain results where res: "engine_multi_search e ?s = Inr results"
    by (cases "engine_multi_search e ?s")
      (simp_all add: searchAll_def all_search_failed_def)
  have len: "\<not> length results < 5"
    using assms res by (auto simp: searchAll_def all_search_failed_def)
  then obtain m t p u l rest where r: "results = m # t # p # u # l # rest"
    using five_results by blast
  let ?b = "select_best (potentialBest (results ! 0) (results ! 1) (results ! 2)
                                  (results ! 3) (results ! 4))"
  obtain evs hyd where pa: "promise_all (all_hydrations e results ?b) = (evs, hyd)"
    by (cases "promise_all (all_hydrations e results ?b)")
  from assms res len pa obtain hs where hs: "hyd = Inr hs"
    by (cases hyd) (simp_all add: searchAll_def all_search_failed_def)
  have mr: "mr_movies mr = type_result (hs ! 0) (results ! 0) resultsPerType"
    "mr_tv_series mr = type_result (hs ! 1) (results ! 1) resultsPerType"
    "mr_persons mr = type_result (hs ! 2) (results ! 2) resultsPerType"
    "mr_users mr = type_result (hs ! 3) (results ! 3) resultsPerType"
    "mr_playlists mr = type_result (hs ! 4) (results ! 4) resultsPerType"
    and tr: "tr = EngineMultiSearch ?s # evs"
    using assms res len pa hs by (auto simp: searchAll_def)
  have evs: "evs = concat (map fst (all_hydrations e results ?b))"
    and al: "all_or_error (map snd (all_hydrations e results ?b)) = Inr hs"
    using pa hs by (simp_all add: promise_all_def)
  from al have "map snd (all_hydrations e results ?b) = map Inr hs" by (rule all_or_error_Inr)
  with res r mr tr evs show ?thesis by simp
qed

section \<open>The pagination block\<close>

lemma run_single_ok:
  assumes "run_single e params
             (\<lambda>r. hydrate_page e r tableName columns store_id map_key page n) failed
           = (tr, Ok200 r)"
  shows "\<exists>sr. engine_search e params = Inr sr
          \<and> pr_pagination r =
              (if hit_ids sr = []
               then \<lparr> total_results = 0, total_pages = Finite 0,
                      current_page = page, per_page = n \<rparr>
               else pagination_block (sr_found sr) page n)"
proof -
  from assms obtain sr where sr: "engine_search e params = Inr sr"
    by (cases "engine_search e params") (simp_all add: run_single_def)
  show ?thesis
  proof (cases "hit_ids sr = []")
    case True
    from run_single_no_hit [OF sr True, of tableName columns store_id map_key page n failed] assms
    have "r = \<lparr> pr_data = [],
                pr_pagination = \<lparr> total_results = 0, total_pages = Finite 0,
                                  current_page = page, per_page = n \<rparr> \<rparr>"
      by simp
    with sr True show ?thesis by simp
  next
    case False
    from run_single_hits_ok [OF sr False assms] sr False
    show ?thesis by (simp add: pagination_block_def)
  qed
qed

lemma type_result_pagination:
  "pr_pagination (type_result hydrated r n) = pagination_block (sr_found r) 1 n"
  by (simp add: type_result_def pagination_block_def)

lemma fixture_movies_run:
  "searchMovies fixture_env (movie_request 1 10)
     = ([EngineSearch (searchMovies_params (movie_request 1 10)),
         StoreSelect ''media_movie'' ''*'' [NumId 603]],
        Ok200 \<lparr> pr_data = [\<lparr> item_id = NumId 603, item_body = ''The Matrix'' \<rparr>],
                pr_pagination = \<lparr> total_results = 50, total_pages = Finite 5,
                                  current_page = 1, per_page = 10 \<rparr> \<rparr>)"
proof -
  have p: "parse_id ''603'' = NumId 603"
    by (simp add: parse_id_def parseInt_def is_space_def is_digit_def digits_val_def
        digit_val_def)
  have s: "String_of (NumId 603) = ''603''"
    by (simp add: String_of_def show_int_def show_nat.simps digit_char_def)
  have c: "Math_ceil_div 50 10 = Finite 5"
    by (simp add: Math_ceil_div_def)
  show ?thesis
    by (simp add: searchMovies_def run_single_def fixture_env_def hydrate_page_def hit_ids_def
        movie_hit_603_def fixture_store_def reorder_def js_Map_def List.map_filter_def
        string_key_def movie_request_def p s c)
qed

text \<open>
  C8, as stated, says that the total of every successful result is the match count the
  engine reports. It fails on a page past the last one: the engine reports 50 matches and
  no hit, and the single-collection handler answers with the totals 0 and 0.
\<close>

theorem total_results_past_end_counterexample:
  "engine_search past_end_env (searchMovies_params (movie_request 6 10))
     = Inr \<lparr> sr_hits = Some [], sr_found = 50 \<rparr>
   \<and> snd (searchMovies past_end_env (movie_request 6 10))
     = Ok200 \<lparr> pr_data = [],
               pr_pagination = \<lparr> total_results = 0, total_pages = Finite 0,
                                 current_page = 6, per_page = 10 \<rparr> \<rparr>"
  by (simp add: past_end_run) (simp add: past_end_env_def)

text \<open>
  C8, amended: the pagination block over \<open>found\<close> matches with a page size \<open>n\<close> of at least
  1 has \<open>total_pages = ceil(found / n)\<close>, which is 0 exactly when \<open>found\<close> is 0. A
  successful single-collection result carries the block of the engine's match count, the
  request's page and the request's page size when the engine returned a hit, and the block
  \<open>{0, 0, page, per_page}\<close> when it returned none, whatever its match count. A successful
  multi-collection result carries, for each type, the block of the engine's match count for
  that type, with the current page 1 and the shared page size (the request's
  \<open>results_per_type\<close> in best-results mode, 5 in all-types mode).
\<close>

theorem pagination_block_of_results:
  assumes "1 \<le> n"
  shows "pagination_block found page n
           = \<lparr> total_results = found, total_pages = Finite \<lceil>rat_of_nat found / rat_of_nat n\<rceil>,
               current_page = page, per_page = n \<rparr>
       \<and> (total_pages (pagination_block found page n) = Finite 0) = (found = 0)
       \<and> (searchMovies e mq = (tr1, Ok200 r1) \<longrightarrow>
            (\<exists>sr. engine_search e (searchMovies_params mq) = Inr sr
               \<and> pr_pagination r1 =
                   (if hit_ids sr = []
                    then \<lparr> total_results = 0, total_pages = Finite 0,
                           current_page = mq_page mq, per_page = mq_per_page mq \<rparr>
                    else pagination_block (sr_found sr) (mq_page mq) (mq_per_page mq))))
       \<and> (searchTVSeries e tq = (tr2, Ok200 r2) \<longrightarrow>
            (\<exists>sr. engine_search e (searchTVSeries_params tq) = Inr sr
               \<and> pr_pagination r2 =
                   (if hit_ids sr = []
                    then \<lparr> total_results = 0, total_pages = Finite 0,
                           current_page = tq_page tq, per_page = tq_per_page tq \<rparr>
                    else pagination_block (sr_found sr) (tq_page tq) (tq_per_page tq))))
       \<and> (searchPersons e pq = (tr3, Ok200 r3) \<longrightarrow>
            (\<exists>sr. engine_search e (searchPersons_params pq) = Inr sr
               \<and> pr_pagination r3 =
                   (if hit_ids sr = []
                    then \<lparr> total_results = 0, total_pages = Finite 0,
                           current_page = pq_page pq, per_page = pq_per_page pq \<rparr>
                    else pagination_block (sr_found sr) (pq_page pq) (pq_per_page pq))))
       \<and> (searchUsers e uq = (tr4, Ok200 r4) \<longrightarrow>
            (\<exists>sr. engine_search e (searchUsers_params uq) = Inr sr
               \<and> pr_pagination r4 =
                   (if hit_ids sr = []
                    then \<lparr> total_results = 0, total_pages = Finite 0,
                           current_page = uq_page uq, per_page = uq_per_page uq \<rparr>
                    else pagination_block (sr_found sr) (uq_page uq) (uq_per_page uq))))
       \<and> (searchPlaylists e userId lq = (tr5, Ok200 r5) \<longrightarrow>
            (\<exists>sr. engine_search e (searchPlaylists_params userId lq) = Inr sr
               \<and> pr_pagination r5 =
                   (if hit_ids sr = []
                    then \<lparr> total_results = 0, total_pages = Finite 0,
                           current_page = lq_page lq, per_page = lq_per_page lq \<rparr>
                    else pagination_block (sr_found sr) (lq_page lq) (lq_per_page lq))))
       \<and> (searchBestResult e userId q k = (tr6, Ok200 mr6) \<longrightarrow>
            (\<exists>m t p u l rest.
               engine_multi_search e (searchBestResult_searches userId q k) = Inr (m # t # p # u # l # rest)
               \<and> pr_pagination (mr_movies mr6) = pagination_block (sr_found m) 1 k
               \<and> pr_pagination (mr_tv_series mr6) = pagination_block (sr_found t) 1 k
               \<and> pr_pagination (mr_persons mr6) = pagination_block (sr_found p) 1 k
               \<and> pr_pagination (mr_users mr6) = pagination_block (sr_found u) 1 k
               \<and> pr_pagination (mr_playlists mr6) = pagination_block (sr_found l) 1 k))
       \<and> (searchAll e userId q = (tr7, Ok200 mr7) \<longrightarrow>
            (\<exists>m t p u l rest.
               engine_multi_search e (searchAll_searches userId q) = Inr (m # t # p # u # l # rest)
               \<and> pr_pagination (mr_movies mr7) = pagination_block (sr_found m) 1 5
               \<and> pr_pagination (mr_tv_series mr7) = pagination_block (sr_found t) 1 5
               \<and> pr_pagination (mr_persons mr7) = pagination_block (sr_found p) 1 5
               \<and> pr_pagination (mr_users mr7) = pagination_block (sr_found u) 1 5
               \<and> pr_pagination (mr_playlists mr7) = pagination_block (sr_found l) 1 5))"
proof -
  have blk: "pagination_block found page n
           = \<lparr> total_results = found, total_pages = Finite \<lceil>rat_of_nat found / rat_of_nat n\<rceil>,
               current_page = page, per_page = n \<rparr>"
    using assms by (simp add: pagination_block_def Math_ceil_div_def)
  have zero: "(total_pages (pagination_block found page n) = Finite 0) = (found = 0)"
    using Math_ceil_div_zero_iff [OF assms] by (simp add: pagination_block_def)
  have s1: "(searchMovies e mq = (tr1, Ok200 r1) \<longrightarrow>
            (\<exists>sr. engine_search e (searchMovies_params mq) = Inr sr
               \<and> pr_pagination r1 =
                   (if hit_ids sr = []
                    then \<lparr> total_results = 0, total_pages = Finite 0,
                           current_page = mq_page mq, per_page = mq_per_page mq \<rparr>
                    else pagination_block (sr_found sr) (mq_page mq) (mq_per_page mq))))"
    unfolding searchMovies_def by (intro impI) (rule run_single_ok)
  have s2: "(searchTVSeries e tq = (tr2, Ok200 r2) \<longrightarrow>
            (\<exists>sr. engine_search e (searchTVSeries_params tq) = Inr sr
               \<and> pr_pagination r2 =
                   (if hit_ids sr = []
                    then \<lparr> total_results = 0, total_pages = Finite 0,
                           current_page = tq_page tq, per_page = tq_per_page tq \<rparr>
                    else pagination_block (sr_found sr) (tq_page tq) (tq_per_page tq))))"
    unfolding searchTVSeries_def by (intro impI) (rule run_single_ok)
  have s3: "(searchPersons e pq = (tr3, Ok200 r3) \<longrightarrow>
            (\<exists>sr. engine_search e (searchPersons_params pq) = Inr sr
               \<and> pr_pagination r3 =
                   (if hit_ids sr = []
                    then \<lparr> total_results = 0, total_pages = Finite 0,
                           current_page = pq_page pq, per_page = pq_per_page pq \<rparr>
                    else pagination_block (sr_found sr) (pq_page pq) (pq_per_page pq))))"
    unfolding searchPersons_def by (intro impI) (rule run_single_ok)
  have s4: "(searchUsers e uq = (tr4, Ok200 r4) \<longrightarrow>
            (\<exists>sr. engine_search e (searchUsers_params uq) = Inr sr
               \<and> pr_pagination r4 =
                   (if hit_ids sr = []
                    then \<lparr> total_results = 0, total_pages = Finite 0,
                           current_page = uq_page uq, per_page = uq_per_page uq \<rparr>
                    else pagination_block (sr_found sr) (uq_page uq) (uq_per_page uq))))"
    unfolding searchUsers_def by (intro impI) (rule run_single_ok)
  have s5: "(searchPlaylists e userId lq = (tr5, Ok200 r5) \<longrightarrow>
            (\<exists>sr. engine_search e (searchPlaylists_params userId lq) = Inr sr
               \<and> pr_pagination r5 =
                   (if hit_ids sr = []
                    then \<lparr> total_results = 0, total_pages = Finite 0,
                           current_page = lq_page lq, per_page = lq_per_page lq \<rparr>
                    else pagination_block (sr_found sr) (lq_page lq) (lq_per_page lq))))"
    unfolding searchPlaylists_def by (intro impI) (rule run_single_ok)
  have m1: "(searchBestResult e userId q k = (tr6, Ok200 mr6) \<longrightarrow>
            (\<exists>m t p u l rest.
               engine_multi_search e (searchBestResult_searches userId q k) = Inr (m # t # p # u # l # rest)
               \<and> pr_pagination (mr_movies mr6) = pagination_block (sr_found m) 1 k
               \<and> pr_pagination (mr_tv_series mr6) = pagination_block (sr_found t) 1 k
               \<and> pr_pagination (mr_persons mr6) = pagination_block (sr_found p) 1 k
               \<and> pr_pagination (mr_users mr6) = pagination_block (sr_found u) 1 k
               \<and> pr_pagination (mr_playlists mr6) = pagination_block (sr_found l) 1 k))"
  proof
    assume "searchBestResult e userId q k = (tr6, Ok200 mr6)"
    from searchBestResult_ok [OF this] obtain m t p u l rest hs where
      "engine_multi_search e (searchBestResult_searches userId q k)
         = Inr (m # t # p # u # l # rest)"
      "mr_movies mr6 = type_result (hs ! 0) m k"
      "mr_tv_series mr6 = type_result (hs ! 1) t k"
      "mr_persons mr6 = type_result (hs ! 2) p k"
      "mr_users mr6 = type_result (hs ! 3) u k"
      "mr_playlists mr6 = type_result (hs ! 4) l k"
      by blast
    then show "\<exists>m t p u l rest.
               engine_multi_search e (searchBestResult_searches userId q k) = Inr (m # t # p # u # l # rest)
               \<and> pr_pagination (mr_movies mr6) = pagination_block (sr_found m) 1 k
               \<and> pr_pagination (mr_tv_series mr6) = pagination_block (sr_found t) 1 k
               \<and> pr_pagination (mr_persons mr6) = pagination_block (sr_found p) 1 k
               \<and> pr_pagination (mr_users mr6) = pagination_block (sr_found u) 1 k
               \<and> pr_pagination (mr_playlists mr6) = pagination_block (sr_found l) 1 k"
      by (simp add: type_result_pagination)
  qed
  have m2: "(searchAll e userId q = (tr7, Ok200 mr7) \<longrightarrow>
            (\<exists>m t p u l rest.
               engine_multi_search e (searchAll_searches userId q) = Inr (m # t # p # u # l # rest)
               \<and> pr_pagination (mr_movies mr7) = pagination_block (sr_found m) 1 5
               \<and> pr_pagination (mr_tv_series mr7) = pagination_block (sr_found t) 1 5
               \<and> pr_pagination (mr_persons mr7) = pagination_block (sr_found p) 1 5
               \<and> pr_pagination (mr_users mr7) = pagination_block (sr_found u) 1 5
               \<and> pr_pagination (mr_playlists mr7) = pagination_block (sr_found l) 1 5))"
  proof
    assume "searchAll e userId q = (tr7, Ok200 mr7)"
    from searchAll_ok [OF this] obtain m t p u l rest hs where
      "engine_multi_search e (searchAll_searches userId q) = Inr (m # t # p # u # l # rest)"
      "mr_movies mr7 = type_result (hs ! 0) m resultsPerType"
      "mr_tv_series mr7 = type_result (hs ! 1) t resultsPerType"
      "mr_persons mr7 = type_result (hs ! 2) p resultsPerType"
      "mr_users mr7 = type_result (hs ! 3) u resultsPerType"
      "mr_playlists mr7 = type_result (hs ! 4) l resultsPerType"
      by blast
    then show "\<exists>m t p u l rest.
               engine_multi_search e (searchAll_searches userId q) = Inr (m # t # p # u # l # rest)
               \<and> pr_pagination (mr_movies mr7) = pagination_block (sr_found m) 1 5
               \<and> pr_pagination (mr_tv_series mr7) = pagination_block (sr_found t) 1 5
               \<and> pr_pagination (mr_persons mr7) = pagination_block (sr_found p) 1 5
               \<and> pr_pagination (mr_users mr7) = pagination_block (sr_found u) 1 5
               \<and> pr_pagination (mr_playlists mr7) = pagination_block (sr_found l) 1 5"
      by (simp add: type_result_pagination resultsPerType_def)
  qed
  from blk zero s1 s2 s3 s4 s5 m1 m2 show ?thesis by (intro conjI)
qed

theorem pagination_block_of_results_witness:
  "snd (searchMovies fixture_env (movie_request 1 10))
     = Ok200 \<lparr> pr_data = [\<lparr> item_id = NumId 603, item_body = ''The Matrix'' \<rparr>],
               pr_pagination = \<lparr> total_results = 50, total_pages = Finite 5,
                                 current_page = 1, per_page = 10 \<rparr> \<rparr>
   \<and> pagination_block 50 1 10
     = \<lparr> total_results = 50, total_pages = Finite 5, current_page = 1, per_page = 10 \<rparr>
   \<and> pagination_block 0 1 10
     = \<lparr> total_results = 0, total_pages = Finite 0, current_page = 1, per_page = 10 \<rparr>"
proof -
  have n: "(1::nat) \<le> 10" by simp
  note blk = pagination_block_of_results [OF n, THEN conjunct1]
  note zero = pagination_block_of_results [OF n, THEN conjunct2, THEN conjunct1]
  have "total_pages (pagination_block 0 1 10) = Finite 0"
    using zero [of 0 1] by simp
  moreover have "total_pages (pagination_block 50 1 10) = Finite 5"
    using blk [of 50 1] by simp
  ultimately show ?thesis
    using fixture_movies_run by (simp add: pagination_block_def)
qed

section \<open>Failure of a multi-collection request\<close>


















section \<open>The record of the best result\<close>

lemma fixture_ids:
  "hit_ids (fixture_results ! 0) = [''603'']" "hit_ids (fixture_results ! 1) = []"
  "hit_ids (fixture_results ! 2) = []" "hit_ids (fixture_results ! 3) = [''u1'']"
  "hit_ids (fixture_results ! 4) = []" "hit_ids (fixture_results ! Suc 0) = []"
  by (simp_all add: fixture_results_def hit_ids_def no_hit_def movie_hit_603_def
      user_hit_u1_def)

lemma fixture_best:
  "select_best (potentialBest (fixture_results ! 0) (fixture_results ! 1) (fixture_results ! 2)
      (fixture_results ! 3) (fixture_results ! 4))
     = Some \<lparr> bm_type = ''movie'', bm_id = ''603'', bm_score = fl (23 / 25) \<rparr>"
  "select_best (potentialBest (fixture_results ! 0) (fixture_results ! Suc 0)
      (fixture_results ! 2) (fixture_results ! 3) (fixture_results ! 4))
     = Some \<lparr> bm_type = ''movie'', bm_id = ''603'', bm_score = fl (23 / 25) \<rparr>"
  by code_simp+

lemma fixture_hydrate_movie:
  "hydrateByIds fixture_env ''media_movie'' [''603'']
     = ([StoreSelect ''media_movie'' ''*'' [StrId ''603'']],
        Inr [\<lparr> item_id = NumId 603, item_body = ''The Matrix'' \<rparr>])"
proof -
  have s: "String_of (NumId 603) = ''603''"
    by (simp add: String_of_def show_int_def show_nat.simps digit_char_def)
  show ?thesis
    by (simp add: hydrateByIds_def fixture_env_def fixture_store_def reorder_def js_Map_def
        List.map_filter_def s)
qed

lemma fixture_hydrate_user:
  "hydrateByIds fixture_env ''user'' [''u1'']
     = ([StoreSelect ''user'' ''*'' [StrId ''u1'']],
        Inr [\<lparr> item_id = StrId ''u1'', item_body = ''neo'' \<rparr>])"
  by (simp add: hydrateByIds_def fixture_env_def fixture_store_def reorder_def js_Map_def
      List.map_filter_def String_of_def)

lemma hydrate_none:
  "hydrateByIds e tableName [] = ([], Inr [])" "hydratePlaylists e [] = ([], Inr [])"
  by (simp_all add: hydrateByIds_def hydratePlaylists_def)

text \<open>
  C5 says that no multi-collection mode fetches the best result a second time. The
  best-results handler complies (\<open>searchBestResult_reuses_hydration\<close> below). The all-types
  handler \<open>searchAll\<close> does not: on the fixture, where the movie 603 wins, it selects the
  movie from the store twice, once in the hydration of the movies and once more for the
  best result, while \<open>searchBestResult\<close> sends the two per-type selections only.
\<close>

theorem searchAll_fetches_best_result_again:
  "fst (searchAll fixture_env None ''matrix'')
     = [ EngineMultiSearch (searchAll_searches None ''matrix''),
         StoreSelect ''media_movie'' ''*'' [StrId ''603''],
         StoreSelect ''user'' ''*'' [StrId ''u1''],
         StoreSelect ''media_movie'' ''*'' [StrId ''603''] ]
   \<and> fst (searchBestResult fixture_env None ''matrix'' 5)
     = [ EngineMultiSearch (searchBestResult_searches None ''matrix'' 5),
         StoreSelect ''media_movie'' ''*'' [StrId ''603''],
         StoreSelect ''user'' ''*'' [StrId ''u1''] ]"
proof -
  have r: "engine_multi_search fixture_env s = Inr fixture_results" for s
    by (simp add: fixture_env_def)
  have len: "\<not> length fixture_results < 5" by (simp add: fixture_results_def)
  have pa: "promise_all (all_hydrations fixture_env fixture_results
               (Some \<lparr> bm_type = ''movie'', bm_id = ''603'', bm_score = fl (23 / 25) \<rparr>))
      = ([StoreSelect ''media_movie'' ''*'' [StrId ''603''],
          StoreSelect ''user'' ''*'' [StrId ''u1''],
          StoreSelect ''media_movie'' ''*'' [StrId ''603'']],
         Inr [[\<lparr> item_id = NumId 603, item_body = ''The Matrix'' \<rparr>], [], [],
              [\<lparr> item_id = StrId ''u1'', item_body = ''neo'' \<rparr>], [],
              [\<lparr> item_id = NumId 603, item_body = ''The Matrix'' \<rparr>]])"
    by (simp add: promise_all_def all_hydrations_def fixture_ids getTableNameForType_def
        fixture_hydrate_movie fixture_hydrate_user hydrate_none)
  have pb: "promise_all (best_hydrations fixture_env fixture_results)
      = ([StoreSelect ''media_movie'' ''*'' [StrId ''603''],
          StoreSelect ''user'' ''*'' [StrId ''u1'']],
         Inr [[\<lparr> item_id = NumId 603, item_body = ''The Matrix'' \<rparr>], [], [],
              [\<lparr> item_id = StrId ''u1'', item_body = ''neo'' \<rparr>], []])"
    by (simp add: promise_all_def best_hydrations_def fixture_ids
        fixture_hydrate_movie fixture_hydrate_user hydrate_none)
  have a: "fst (searchAll fixture_env None ''matrix'')
     = [ EngineMultiSearch (searchAll_searches None ''matrix''),
         StoreSelect ''media_movie'' ''*'' [StrId ''603''],
         StoreSelect ''user'' ''*'' [StrId ''u1''],
         StoreSelect ''media_movie'' ''*'' [StrId ''603''] ]"
    by (simp add: searchAll_def Let_def r len fixture_best pa)
  have b: "fst (searchBestResult fixture_env None ''matrix'' 5)
     = [ EngineMultiSearch (searchBestResult_searches None ''matrix'' 5),
         StoreSelect ''media_movie'' ''*'' [StrId ''603''],
         StoreSelect ''user'' ''*'' [StrId ''u1''] ]"
    by (simp add: searchBestResult_def Let_def r len fixture_best pb)
  from a b show ?thesis ..
qed

lemma find_in_set:
  assumes "find P xs = Some x"
  shows "x \<in> set xs"
  using assms by (induction xs) (auto split: if_splits)

lemma best_data_in_hydrated:
  assumes "best_data b hm ht hp hu hl = Some x"
  shows "x \<in> set hm \<union> set ht \<union> set hp \<union> set hu \<union> set hl"
  using assms by (auto simp: best_data_def dest: find_in_set split: if_splits)

lemma searchBestResult_reuses_hydration:
  assumes "searchBestResult e userId q n = (tr, Ok200 mr)"
  shows "(\<exists>results. tr = EngineMultiSearch (searchBestResult_searches userId q n)
                        # concat (map fst (best_hydrations e results)))
       \<and> (\<forall>br x. mr_bestResult mr = Some br \<and> br_data br = Some x \<longrightarrow>
             x \<in> set (pr_data (mr_movies mr)) \<union> set (pr_data (mr_tv_series mr))
               \<union> set (pr_data (mr_persons mr)) \<union> set (pr_data (mr_users mr))
               \<union> set (pr_data (mr_playlists mr)))"
proof -
  from searchBestResult_ok [OF assms] obtain m t p u l rest hs where
    tr: "tr = EngineMultiSearch (searchBestResult_searches userId q n)
                  # concat (map fst (best_hydrations e (m # t # p # u # l # rest)))"
    and best: "mr_bestResult mr =
             map_option
               (\<lambda>b. \<lparr> br_type = bm_type b,
                      br_data = best_data b (hs ! 0) (hs ! 1) (hs ! 2) (hs ! 3) (hs ! 4) \<rparr>)
               (select_best (potentialBest m t p u l))"
    and d: "mr_movies mr = type_result (hs ! 0) m n" "mr_tv_series mr = type_result (hs ! 1) t n"
      "mr_persons mr = type_result (hs ! 2) p n" "mr_users mr = type_result (hs ! 3) u n"
      "mr_playlists mr = type_result (hs ! 4) l n"
    by blast
  have "x \<in> set (hs ! 0) \<union> set (hs ! 1) \<union> set (hs ! 2) \<union> set (hs ! 3) \<union> set (hs ! 4)"
    if "mr_bestResult mr = Some br" and "br_data br = Some x" for br x
  proof -
    from that(1) best obtain b where
      "br = \<lparr> br_type = bm_type b,
              br_data = best_data b (hs ! 0) (hs ! 1) (hs ! 2) (hs ! 3) (hs ! 4) \<rparr>"
      by auto
    with that(2) have "best_data b (hs ! 0) (hs ! 1) (hs ! 2) (hs ! 3) (hs ! 4) = Some x" by simp
    then show ?thesis by (rule best_data_in_hydrated)
  qed
  then show ?thesis using tr d by (auto simp: type_result_def)
qed

lemma searchBestResult_best_absent_iff:
  assumes "searchBestResult e userId q n = (tr, Ok200 mr)"
  shows "\<exists>m t p u l rest.
           engine_multi_search e (searchBestResult_searches userId q n)
             = Inr (m # t # p # u # l # rest)
         \<and> (mr_bestResult mr = None) =
             (first_hit m = None \<and> first_hit t = None \<and> first_hit p = None
              \<and> first_hit u = None \<and> first_hit l = None)"
proof -
  from searchBestResult_ok [OF assms] obtain m t p u l rest hs where
    eng: "engine_multi_search e (searchBestResult_searches userId q n)
             = Inr (m # t # p # u # l # rest)"
    and best: "mr_bestResult mr =
             map_option
               (\<lambda>b. \<lparr> br_type = bm_type b,
                      br_data = best_data b (hs ! 0) (hs ! 1) (hs ! 2) (hs ! 3) (hs ! 4) \<rparr>)
               (select_best (potentialBest m t p u l))"
    by blast
  have "(select_best (potentialBest m t p u l) = None) = (scored (potentialBest m t p u l) = [])"
    using select_best_cases [of "potentialBest m t p u l"] by auto
  then have "(mr_bestResult mr = None) = (scored (potentialBest m t p u l) = [])"
    using best by simp
  then have fin: "(mr_bestResult mr = None) =
             (first_hit m = None \<and> first_hit t = None \<and> first_hit p = None
              \<and> first_hit u = None \<and> first_hit l = None)"
    by (simp only: scored_empty_iff)
  show ?thesis
    by (rule exI [of _ m], rule exI [of _ t], rule exI [of _ p], rule exI [of _ u],
        rule exI [of _ l], rule exI [of _ rest]) (use eng fin in simp)
qed


end
